theory Spec2Isabelle
  imports Complex_Main "HOL-Library.Char_ord" "HOL-Library.List_Lexorder"
begin

section \<open>JSON values and the Python operations on them\<close>

text \<open>
  \<^verbatim>\<open>process_data.py\<close> works on what \<^verbatim>\<open>json.load\<close> returns: \<^verbatim>\<open>None\<close>, booleans,
  integers, floats, strings, lists and dictionaries with string keys. A float stands
  for its exact rational value (NaN and the infinities are left out). A string is a
  list of code points below 256; an object is the list of its items in insertion
  order, with distinct keys, as \<^verbatim>\<open>json.load\<close> builds it.
\<close>

datatype json =
    JNull
  | JBool bool
  | JInt int
  | JFloat rat
  | JStr string
  | JList "json list"
  | JObj "(string \<times> json) list"

text \<open>The exceptions the operations below can raise.\<close>

datatype error = KeyError | TypeError | AttributeError | IndexError

definition and_then :: "error + 'a \<Rightarrow> ('a \<Rightarrow> error + 'b) \<Rightarrow> error + 'b" where
  "and_then m f = (case m of Inl e \<Rightarrow> Inl e | Inr x \<Rightarrow> f x)"

text \<open>Truth value testing: \<^verbatim>\<open>if x\<close>, \<^verbatim>\<open>not x\<close>, \<^verbatim>\<open>x or y\<close>.\<close>

fun truthy :: "json \<Rightarrow> bool" where
  "truthy JNull = False"
| "truthy (JBool b) = b"
| "truthy (JInt i) = (i \<noteq> 0)"
| "truthy (JFloat r) = (r \<noteq> 0)"
| "truthy (JStr s) = (s \<noteq> [])"
| "truthy (JList xs) = (xs \<noteq> [])"
| "truthy (JObj kvs) = (kvs \<noteq> [])"

definition py_or :: "json \<Rightarrow> json \<Rightarrow> json" where
  "py_or a b = (if truthy a then a else b)"

text \<open>
  \<^verbatim>\<open>x == y\<close>. Booleans, integers and floats compare by value (\<^verbatim>\<open>True == 1 == 1.0\<close>),
  lists element by element, dictionaries item by item whatever the order.
\<close>

fun num_value :: "json \<Rightarrow> rat option" where
  "num_value (JBool b) = Some (if b then 1 else 0)"
| "num_value (JInt i) = Some (of_int i)"
| "num_value (JFloat r) = Some r"
| "num_value _ = None"

fun py_eq :: "json \<Rightarrow> json \<Rightarrow> bool"
  and py_eq_list :: "json list \<Rightarrow> json list \<Rightarrow> bool"
  and py_eq_items :: "(string \<times> json) list \<Rightarrow> (string \<times> json) list \<Rightarrow> bool" where
  "py_eq JNull y = (y = JNull)"
| "py_eq (JStr a) y = (case y of JStr b \<Rightarrow> a = b | _ \<Rightarrow> False)"
| "py_eq (JList xs) y = (case y of JList ys \<Rightarrow> py_eq_list xs ys | _ \<Rightarrow> False)"
| "py_eq (JObj a) y =
     (case y of JObj b \<Rightarrow> length a = length b \<and> py_eq_items a b | _ \<Rightarrow> False)"
| "py_eq x y =
     (case (num_value x, num_value y) of (Some a, Some b) \<Rightarrow> a = b | _ \<Rightarrow> False)"
| "py_eq_list [] ys = (ys = [])"
| "py_eq_list (x # xs) ys =
     (case ys of [] \<Rightarrow> False | y # ys' \<Rightarrow> py_eq x y \<and> py_eq_list xs ys')"
| "py_eq_items [] b = True"
| "py_eq_items ((k, v) # a) b =
     ((case map_of b k of None \<Rightarrow> False | Some w \<Rightarrow> py_eq v w) \<and> py_eq_items a b)"

text \<open>\<^verbatim>\<open>d.get(key, default)\<close>: only a dictionary has the method.\<close>

definition py_get :: "json \<Rightarrow> string \<Rightarrow> json \<Rightarrow> error + json" where
  "py_get d k dflt =
     (case d of
        JObj kvs \<Rightarrow> (case map_of kvs k of None \<Rightarrow> Inr dflt | Some v \<Rightarrow> Inr v)
      | _ \<Rightarrow> Inl AttributeError)"

text \<open>\<^verbatim>\<open>d['key']\<close> with a string key.\<close>

definition py_getitem :: "json \<Rightarrow> string \<Rightarrow> error + json" where
  "py_getitem d k =
     (case d of
        JObj kvs \<Rightarrow> (case map_of kvs k of None \<Rightarrow> Inl KeyError | Some v \<Rightarrow> Inr v)
      | _ \<Rightarrow> Inl TypeError)"

text \<open>
  \<^verbatim>\<open>x[i]\<close> with a non-negative integer index. No object read from JSON has an
  integer key.
\<close>

definition py_item :: "json \<Rightarrow> nat \<Rightarrow> error + json" where
  "py_item x i =
     (case x of
        JList xs \<Rightarrow> if i < length xs then Inr (xs ! i) else Inl IndexError
      | JStr s \<Rightarrow> if i < length s then Inr (JStr [s ! i]) else Inl IndexError
      | JObj kvs \<Rightarrow> Inl KeyError
      | _ \<Rightarrow> Inl TypeError)"

definition py_len :: "json \<Rightarrow> error + nat" where
  "py_len x =
     (case x of
        JList xs \<Rightarrow> Inr (length xs)
      | JStr s \<Rightarrow> Inr (length s)
      | JObj kvs \<Rightarrow> Inr (length kvs)
      | _ \<Rightarrow> Inl TypeError)"

text \<open>
  \<^verbatim>\<open>for x in v\<close>: the elements of a list, the keys of a dictionary, the characters
  of a string.
\<close>

definition py_iter :: "json \<Rightarrow> error + json list" where
  "py_iter v =
     (case v of
        JList xs \<Rightarrow> Inr xs
      | JObj kvs \<Rightarrow> Inr (map (\<lambda>kv. JStr (fst kv)) kvs)
      | JStr s \<Rightarrow> Inr (map (\<lambda>c. JStr [c]) s)
      | _ \<Rightarrow> Inl TypeError)"

text \<open>A loop that appends one result per element, stopping at the first exception.\<close>

fun for_each :: "('a \<Rightarrow> error + 'b) \<Rightarrow> 'a list \<Rightarrow> error + 'b list" where
  "for_each f [] = Inr []"
| "for_each f (x # xs) =
     (case f x of
        Inl e \<Rightarrow> Inl e
      | Inr y \<Rightarrow> (case for_each f xs of Inl e \<Rightarrow> Inl e | Inr ys \<Rightarrow> Inr (y # ys)))"

section \<open>The text classifier\<close>

text \<open>
  \<^verbatim>\<open>str.lower\<close>, \<^verbatim>\<open>unicodedata.normalize('NFD', _)\<close> and \<^verbatim>\<open>unicodedata.category\<close>
  on the code points a string of this model holds (below 256) and on the combining
  marks their decomposition yields.
\<close>

definition lower_cp :: "nat \<Rightarrow> nat" where
  "lower_cp c =
     (if (65 \<le> c \<and> c \<le> 90) \<or> (192 \<le> c \<and> c \<le> 222 \<and> c \<noteq> 215) then c + 32 else c)"

definition str_lower :: "nat list \<Rightarrow> nat list" where
  "str_lower s = map lower_cp s"

definition nfd_table :: "(nat \<times> nat list) list" where
  "nfd_table =
    [(192, [65, 768]), (193, [65, 769]), (194, [65, 770]), (195, [65, 771]),
     (196, [65, 776]), (197, [65, 778]), (199, [67, 807]), (200, [69, 768]),
     (201, [69, 769]), (202, [69, 770]), (203, [69, 776]), (204, [73, 768]),
     (205, [73, 769]), (206, [73, 770]), (207, [73, 776]), (209, [78, 771]),
     (210, [79, 768]), (211, [79, 769]), (212, [79, 770]), (213, [79, 771]),
     (214, [79, 776]), (217, [85, 768]), (218, [85, 769]), (219, [85, 770]),
     (220, [85, 776]), (221, [89, 769]), (224, [97, 768]), (225, [97, 769]),
     (226, [97, 770]), (227, [97, 771]), (228, [97, 776]), (229, [97, 778]),
     (231, [99, 807]), (232, [101, 768]), (233, [101, 769]), (234, [101, 770]),
     (235, [101, 776]), (236, [105, 768]), (237, [105, 769]), (238, [105, 770]),
     (239, [105, 776]), (241, [110, 771]), (242, [111, 768]), (243, [111, 769]),
     (244, [111, 770]), (245, [111, 771]), (246, [111, 776]), (249, [117, 768]),
     (250, [117, 769]), (251, [117, 770]), (252, [117, 776]), (253, [121, 769]),
     (255, [121, 776])]"

definition normalize_NFD :: "nat list \<Rightarrow> nat list" where
  "normalize_NFD s =
     concat (map (\<lambda>c. case map_of nfd_table c of None \<Rightarrow> [c] | Some d \<Rightarrow> d) s)"

definition category_Mn :: "nat \<Rightarrow> bool" where
  "category_Mn c = (768 \<le> c \<and> c \<le> 879)"

text \<open>\<^verbatim>\<open>word in text\<close> on strings: \<^verbatim>\<open>word\<close> occurs in \<^verbatim>\<open>text\<close> as a substring.\<close>

fun starts_with :: "'a list \<Rightarrow> 'a list \<Rightarrow> bool" where
  "starts_with [] t = True"
| "starts_with (w # ws) [] = False"
| "starts_with (w # ws) (c # cs) = (w = c \<and> starts_with ws cs)"

fun str_in :: "'a list \<Rightarrow> 'a list \<Rightarrow> bool" where
  "str_in w [] = (w = [])"
| "str_in w (c # cs) = (starts_with w (c # cs) \<or> str_in w cs)"

definition code_points :: "string \<Rightarrow> nat list" where
  "code_points s = map of_char s"

text \<open>\<^verbatim>\<open>['yes', 'si' with an acute accent on the i, 'si']\<close>\<close>

definition affirmative_words :: "nat list list" where
  "affirmative_words = [code_points ''yes'', [115, 237], code_points ''si'']"

definition contains_affirmative_word :: "json \<Rightarrow> bool" where
  "contains_affirmative_word text =
     (case text of
        JStr s \<Rightarrow>
          if s = [] then False
          else
            (let normalized_text = str_lower (code_points s);
                 normalized_text = normalize_NFD normalized_text;
                 normalized_text = filter (\<lambda>char. \<not> category_Mn char) normalized_text
             in list_ex (\<lambda>word. str_in word normalized_text) affirmative_words)
      | _ \<Rightarrow> False)"

section \<open>The assessment normalizer\<close>

text \<open>The dictionaries \<^verbatim>\<open>process_data\<close> builds with fixed keys are records.\<close>

record simplified_rating_details =
  rd_id :: json
  rd_value :: json
  rd_title :: json

record simplified_component_details =
  cd_id :: json
  cd_component_num :: json
  cd_area :: json
  cd_title :: json
  cd_description :: json

record processed_component =
  pc_id :: json
  pc_component :: json
  pc_rating :: json
  pc_rating_details :: simplified_rating_details
  pc_component_details :: simplified_component_details
  pc_urban_considerations :: json
  pc_epi_considerations :: json
  pc_climate_environmental_considerations :: json
  pc_migration_considerations :: json
  pc_urban_considerations_simplified :: bool
  pc_epi_considerations_simplified :: bool
  pc_climate_environmental_considerations_simplified :: bool
  pc_migration_considerations_simplified :: bool
  pc_notes :: json

record processed_area =
  pa_id :: json
  pa_component_responses :: "processed_component list"

record processed_result =
  pr_id :: json
  pr_area_responses :: "processed_area list"

text \<open>The body of the innermost loop (lines 186 to 233).\<close>

definition process_component :: "json \<Rightarrow> error + processed_component" where
  "process_component component_response =
     and_then (py_get component_response ''component_details'' JNull) (\<lambda>cd0.
     and_then (py_get component_response ''rating_details'' JNull) (\<lambda>rd0.
     let component_details = py_or cd0 (JObj []);
         rating_details = py_or rd0 (JObj []) in
     and_then (py_get component_details ''id'' JNull) (\<lambda>c_id.
     and_then (py_get component_details ''component_num'' JNull) (\<lambda>c_num.
     and_then (py_get component_details ''area'' JNull) (\<lambda>c_area.
     and_then (py_get component_details ''title'' JNull) (\<lambda>c_title.
     and_then (py_get component_details ''description'' JNull) (\<lambda>c_description.
     and_then (py_get rating_details ''id'' JNull) (\<lambda>r_id.
     and_then (py_get rating_details ''value'' JNull) (\<lambda>r_value.
     and_then (py_get rating_details ''title'' JNull) (\<lambda>r_title.
     and_then (py_get component_response ''urban_considerations'' JNull)
       (\<lambda>urban_considerations.
     and_then (py_get component_response ''epi_considerations'' JNull)
       (\<lambda>epi_considerations.
     and_then (py_get component_response ''climate_environmental_considerations'' JNull)
       (\<lambda>climate_environmental_considerations.
     and_then (py_get component_response ''migration_considerations'' JNull)
       (\<lambda>migration_considerations.
     and_then (py_getitem component_response ''id'') (\<lambda>i.
     and_then (py_get component_response ''component'' JNull) (\<lambda>component.
     and_then (py_get component_response ''rating'' JNull) (\<lambda>rating.
     and_then (py_get component_response ''notes'' JNull) (\<lambda>notes.
     Inr \<lparr> pc_id = i,
           pc_component = component,
           pc_rating = rating,
           pc_rating_details = \<lparr> rd_id = r_id, rd_value = r_value, rd_title = r_title \<rparr>,
           pc_component_details =
             \<lparr> cd_id = c_id, cd_component_num = c_num, cd_area = c_area,
               cd_title = c_title, cd_description = c_description \<rparr>,
           pc_urban_considerations = urban_considerations,
           pc_epi_considerations = epi_considerations,
           pc_climate_environmental_considerations = climate_environmental_considerations,
           pc_migration_considerations = migration_considerations,
           pc_urban_considerations_simplified =
             contains_affirmative_word urban_considerations,
           pc_epi_considerations_simplified =
             contains_affirmative_word epi_considerations,
           pc_climate_environmental_considerations_simplified =
             contains_affirmative_word climate_environmental_considerations,
           pc_migration_considerations_simplified =
             contains_affirmative_word migration_considerations,
           pc_notes = notes \<rparr>))))))))))))))))))"

text \<open>The loop over the component responses of one area response (lines 180 to 235).\<close>

definition process_area :: "json \<Rightarrow> error + processed_area" where
  "process_area area_response =
     and_then (py_getitem area_response ''id'') (\<lambda>i.
     and_then (py_get area_response ''component_responses'' (JList [])) (\<lambda>crs.
     and_then (py_iter crs) (\<lambda>component_responses.
     and_then (for_each process_component component_responses) (\<lambda>pcs.
     Inr \<lparr> pa_id = i, pa_component_responses = pcs \<rparr>))))"

text \<open>The loop over the area responses of one assessment (lines 174 to 237).\<close>

definition process_result :: "json \<Rightarrow> error + processed_result" where
  "process_result result =
     and_then (py_getitem result ''id'') (\<lambda>i.
     and_then (py_get result ''area_responses'' (JList [])) (\<lambda>ars.
     and_then (py_iter ars) (\<lambda>area_responses.
     and_then (for_each process_area area_responses) (\<lambda>pas.
     Inr \<lparr> pr_id = i, pr_area_responses = pas \<rparr>))))"

definition process_assessments :: "json \<Rightarrow> error + processed_result list" where
  "process_assessments assessments =
     and_then (py_getitem assessments ''results'') (\<lambda>results.
     and_then (py_iter results) (\<lambda>rs. for_each process_result rs))"

text \<open>
  The shape of an Assessment Record: an object with an \<^verbatim>\<open>id\<close> whose
  \<^verbatim>\<open>area_responses\<close>, when given, is a list of objects with an \<^verbatim>\<open>id\<close>, each with a
  list of component responses (when given), which are objects with an \<^verbatim>\<open>id\<close> whose
  \<^verbatim>\<open>component_details\<close> and \<^verbatim>\<open>rating_details\<close> are objects, null or left out.
\<close>

definition has_key :: "json \<Rightarrow> string \<Rightarrow> bool" where
  "has_key d k = (case d of JObj kvs \<Rightarrow> map_of kvs k \<noteq> None | _ \<Rightarrow> False)"

definition field_of :: "json \<Rightarrow> string \<Rightarrow> json" where
  "field_of d k = (case d of JObj kvs \<Rightarrow> (case map_of kvs k of None \<Rightarrow> JNull | Some v \<Rightarrow> v)
                | _ \<Rightarrow> JNull)"

definition is_object :: "json \<Rightarrow> bool" where
  "is_object v = (case v of JObj kvs \<Rightarrow> True | _ \<Rightarrow> False)"

definition object_or_falsy :: "json \<Rightarrow> bool" where
  "object_or_falsy v = (is_object v \<or> \<not> truthy v)"

definition list_field :: "json \<Rightarrow> string \<Rightarrow> json list" where
  "list_field d k = (case field_of d k of JList xs \<Rightarrow> xs | _ \<Rightarrow> [])"

definition list_field_ok :: "json \<Rightarrow> string \<Rightarrow> bool" where
  "list_field_ok d k = (\<not> has_key d k \<or> (case field_of d k of JList xs \<Rightarrow> True | _ \<Rightarrow> False))"

definition component_response_ok :: "json \<Rightarrow> bool" where
  "component_response_ok c =
     (has_key c ''id'' \<and> object_or_falsy (field_of c ''component_details'')
      \<and> object_or_falsy (field_of c ''rating_details''))"

definition area_response_ok :: "json \<Rightarrow> bool" where
  "area_response_ok a =
     (has_key a ''id'' \<and> list_field_ok a ''component_responses''
      \<and> list_all component_response_ok (list_field a ''component_responses''))"

definition assessment_ok :: "json \<Rightarrow> bool" where
  "assessment_ok r =
     (has_key r ''id'' \<and> list_field_ok r ''area_responses''
      \<and> list_all area_response_ok (list_field r ''area_responses''))"

section \<open>Dictionaries built by the pipeline\<close>

text \<open>
  A Python dictionary keyed by JSON values, as the list of its items in insertion
  order. Keys are matched with \<^verbatim>\<open>==\<close>; a list or a dictionary is unhashable, and
  using one as a key raises \<^verbatim>\<open>TypeError\<close>. Storing under a key already held
  replaces the value and keeps the key and its position.
\<close>

definition hashable :: "json \<Rightarrow> bool" where
  "hashable k = (case k of JList xs \<Rightarrow> False | JObj kvs \<Rightarrow> False | _ \<Rightarrow> True)"

fun dict_lookup :: "(json \<times> 'v) list \<Rightarrow> json \<Rightarrow> 'v option" where
  "dict_lookup [] k = None"
| "dict_lookup ((k', v) # d) k = (if py_eq k' k then Some v else dict_lookup d k)"

fun dict_store :: "(json \<times> 'v) list \<Rightarrow> json \<Rightarrow> 'v \<Rightarrow> (json \<times> 'v) list" where
  "dict_store [] k v = [(k, v)]"
| "dict_store ((k', v') # d) k v =
     (if py_eq k' k then (k', v) # d else (k', v') # dict_store d k v)"

text \<open>\<^verbatim>\<open>d.get(k)\<close>, \<^verbatim>\<open>d.get(k, default)\<close> and \<^verbatim>\<open>d[k] = v\<close>.\<close>

definition dict_find :: "(json \<times> 'v) list \<Rightarrow> json \<Rightarrow> error + 'v option" where
  "dict_find d k = (if hashable k then Inr (dict_lookup d k) else Inl TypeError)"

definition dict_get :: "(json \<times> 'v) list \<Rightarrow> json \<Rightarrow> 'v \<Rightarrow> error + 'v" where
  "dict_get d k dflt =
     and_then (dict_find d k) (\<lambda>found. Inr (case found of None \<Rightarrow> dflt | Some v \<Rightarrow> v))"

definition dict_set :: "(json \<times> 'v) list \<Rightarrow> json \<Rightarrow> 'v \<Rightarrow> error + (json \<times> 'v) list" where
  "dict_set d k v = (if hashable k then Inr (dict_store d k v) else Inl TypeError)"

text \<open>A loop that updates a state, stopping at the first exception.\<close>

fun fold_err :: "('s \<Rightarrow> 'a \<Rightarrow> error + 's) \<Rightarrow> 'a list \<Rightarrow> 's \<Rightarrow> error + 's" where
  "fold_err f [] s = Inr s"
| "fold_err f (x # xs) s = (case f s x of Inl e \<Rightarrow> Inl e | Inr s' \<Rightarrow> fold_err f xs s')"

text \<open>A dictionary comprehension \<^verbatim>\<open>{key(x): value(x) for x in xs}\<close>.\<close>

definition dict_comprehension ::
  "('a \<Rightarrow> error + (json \<times> 'v)) \<Rightarrow> 'a list \<Rightarrow> error + (json \<times> 'v) list" where
  "dict_comprehension f xs =
     fold_err (\<lambda>d x. and_then (f x) (\<lambda>kv. dict_set d (fst kv) (snd kv))) xs []"

subsection \<open>The overview lookup (lines 88 to 114)\<close>

record overview_fields =
  ov_assess_preparedness_of_country :: json
  ov_assess_urban_aspect_of_country :: json
  ov_assess_climate_environment_of_country :: json
  ov_assess_migration_aspect_of_country :: json

text \<open>
  \<^verbatim>\<open>per-overview.json\<close> is optional: when the file is not found the collection
  keeps its initial value \<^verbatim>\<open>{'results': []}\<close>.
\<close>

definition read_overview :: "json option \<Rightarrow> json" where
  "read_overview file =
     (case file of None \<Rightarrow> JObj [(''results'', JList [])] | Some d \<Rightarrow> d)"

definition overview_item :: "json \<Rightarrow> error + (json \<times> overview_fields)" where
  "overview_item overview =
     and_then (py_getitem overview ''id'') (\<lambda>i.
     and_then (py_get overview ''assess_preparedness_of_country'' JNull) (\<lambda>p.
     and_then (py_get overview ''assess_urban_aspect_of_country'' JNull) (\<lambda>u.
     and_then (py_get overview ''assess_climate_environment_of_country'' JNull) (\<lambda>c.
     and_then (py_get overview ''assess_migration_aspect_of_country'' JNull) (\<lambda>m.
     Inr (i, \<lparr> ov_assess_preparedness_of_country = p,
                ov_assess_urban_aspect_of_country = u,
                ov_assess_climate_environment_of_country = c,
                ov_assess_migration_aspect_of_country = m \<rparr>))))))"

definition overview_map :: "json \<Rightarrow> error + (json \<times> overview_fields) list" where
  "overview_map per_overview_data =
     and_then (py_getitem per_overview_data ''results'') (\<lambda>results.
     and_then (py_iter results) (\<lambda>rs. dict_comprehension overview_item rs))"

subsection \<open>The country lookup (lines 116 to 125)\<close>

record country_entry =
  ce_centroid :: json
  ce_iso3 :: json
  ce_region :: json
  ce_name :: json

definition country_item :: "json \<Rightarrow> error + (json \<times> country_entry)" where
  "country_item country =
     and_then (py_getitem country ''iso3'') (\<lambda>k.
     and_then (py_get country ''centroid'' JNull) (\<lambda>centroid.
     and_then (py_getitem country ''iso3'') (\<lambda>iso3.
     and_then (py_get country ''region'' JNull) (\<lambda>region.
     and_then (py_get country ''name'' JNull) (\<lambda>name.
     Inr (k, \<lparr> ce_centroid = centroid, ce_iso3 = iso3, ce_region = region,
                ce_name = name \<rparr>))))))"

definition country_map :: "json \<Rightarrow> error + (json \<times> country_entry) list" where
  "country_map countries_data =
     and_then (py_getitem countries_data ''results'') (\<lambda>results.
     and_then (py_iter results) (\<lambda>rs. dict_comprehension country_item rs))"

subsection \<open>The component descriptions (lines 127 to 138)\<close>

record component_description =
  ds_componentTitle :: json
  ds_areaTitle :: json
  ds_description :: json

definition describe_response ::
  "(json \<times> component_description) list \<Rightarrow> json
     \<Rightarrow> error + (json \<times> component_description) list" where
  "describe_response component_descriptions response =
     and_then (py_get response ''component_details'' (JObj [])) (\<lambda>component.
     and_then (py_get component ''id'' JNull) (\<lambda>component_id.
     if truthy component_id then
       and_then (py_get component ''title'' JNull) (\<lambda>title.
       and_then (py_get component ''area'' (JObj [])) (\<lambda>area.
       and_then (py_get area ''title'' JNull) (\<lambda>area_title.
       and_then (py_get component ''description'' JNull) (\<lambda>description.
       dict_set component_descriptions component_id
         \<lparr> ds_componentTitle = title, ds_areaTitle = area_title,
           ds_description = description \<rparr>))))
     else Inr component_descriptions))"

definition describe_item ::
  "(json \<times> component_description) list \<Rightarrow> json
     \<Rightarrow> error + (json \<times> component_description) list" where
  "describe_item component_descriptions item =
     and_then (py_get item ''prioritized_action_responses'' (JList [])) (\<lambda>rs.
     and_then (py_iter rs) (\<lambda>responses.
     fold_err describe_response responses component_descriptions))"

definition component_descriptions ::
  "json \<Rightarrow> error + (json \<times> component_description) list" where
  "component_descriptions prioritization_data =
     and_then (py_getitem prioritization_data ''results'') (\<lambda>results.
     and_then (py_iter results) (\<lambda>items. fold_err describe_item items []))"

subsection \<open>The prioritization lookup (lines 140 to 152)\<close>

record prioritized_component =
  pz_componentId :: json
  pz_componentTitle :: json
  pz_areaTitle :: json

definition prioritized_response :: "json \<Rightarrow> error + prioritized_component" where
  "prioritized_response response =
     and_then (py_get response ''component_details'' (JObj [])) (\<lambda>component_details.
     and_then (py_get response ''component'' JNull) (\<lambda>component.
     and_then (py_get component_details ''title'' JNull) (\<lambda>title.
     and_then (py_get component_details ''area'' (JObj [])) (\<lambda>area.
     and_then (py_get area ''title'' JNull) (\<lambda>area_title.
     Inr \<lparr> pz_componentId = component, pz_componentTitle = title,
           pz_areaTitle = area_title \<rparr>)))))"

definition prioritization_item ::
  "(json \<times> prioritized_component list) list \<Rightarrow> json
     \<Rightarrow> error + (json \<times> prioritized_component list) list" where
  "prioritization_item prioritization_map item =
     and_then (py_get item ''overview'' JNull) (\<lambda>overview_id.
     and_then (py_get item ''prioritized_action_responses'' (JList [])) (\<lambda>rs.
     and_then (py_iter rs) (\<lambda>responses.
     and_then (for_each prioritized_response responses) (\<lambda>components.
     dict_set prioritization_map overview_id components))))"

definition prioritization_map ::
  "json \<Rightarrow> error + (json \<times> prioritized_component list) list" where
  "prioritization_map prioritization_data =
     and_then (py_getitem prioritization_data ''results'') (\<lambda>results.
     and_then (py_iter results) (\<lambda>items. fold_err prioritization_item items []))"

subsection \<open>The static tables (lines 154 to 170)\<close>

definition region_id_to_name_map :: "(json \<times> json) list" where
  "region_id_to_name_map =
     [(JInt 0, JStr ''Africa''), (JInt 1, JStr ''Americas''),
      (JInt 2, JStr ''Asia Pacific''), (JInt 3, JStr ''Europe''), (JInt 4, JStr ''MENA'')]"

definition area_names :: "(json \<times> json) list" where
  "area_names =
     [(JInt 1, JStr ''Policy Strategy and Standards''),
      (JInt 2, JStr ''Analysis and planning''),
      (JInt 3, JStr ''Operational capacity''),
      (JInt 4, JStr ''Coordination''),
      (JInt 5, JStr ''Operations support'')]"

section \<open>The dashboard flattener (lines 239 to 262)\<close>

record dashboard_component =
  dc_component_id :: json
  dc_component_name :: json
  dc_component_num :: json
  dc_area_id :: json
  dc_area_name :: json
  dc_rating_value :: json
  dc_rating_title :: json

record dashboard_assessment =
  da_assessment_id :: json
  da_components :: "dashboard_component list"

definition dashboard_component_of :: "json \<Rightarrow> error + dashboard_component" where
  "dashboard_component_of component_response =
     and_then (py_get component_response ''component_details'' JNull) (\<lambda>cd0.
     and_then (py_get component_response ''rating_details'' JNull) (\<lambda>rd0.
     let component_details = py_or cd0 (JObj []);
         rating_details = py_or rd0 (JObj []) in
     and_then (py_get component_response ''component'' JNull) (\<lambda>component_id.
     and_then (py_get component_details ''title'' (JStr [])) (\<lambda>component_name.
     and_then (py_get component_details ''component_num'' JNull) (\<lambda>component_num.
     and_then (py_get component_details ''area'' JNull) (\<lambda>area_id.
     and_then (py_get component_details ''area'' JNull) (\<lambda>area.
     and_then (dict_get area_names area (JStr [])) (\<lambda>area_name.
     and_then (py_get rating_details ''value'' (JInt 0)) (\<lambda>rating_value.
     and_then (py_get rating_details ''title'' (JStr [])) (\<lambda>rating_title.
     Inr \<lparr> dc_component_id = component_id,
           dc_component_name = component_name,
           dc_component_num = component_num,
           dc_area_id = area_id,
           dc_area_name = area_name,
           dc_rating_value = rating_value,
           dc_rating_title = rating_title \<rparr>))))))))))"

definition area_components :: "json \<Rightarrow> error + dashboard_component list" where
  "area_components area_response =
     and_then (py_get area_response ''component_responses'' (JList [])) (\<lambda>crs.
     and_then (py_iter crs) (\<lambda>component_responses.
     for_each dashboard_component_of component_responses))"

definition dashboard_assessment_of :: "json \<Rightarrow> error + dashboard_assessment" where
  "dashboard_assessment_of assessment =
     and_then (py_get assessment ''area_responses'' (JList [])) (\<lambda>ars.
     and_then (py_iter ars) (\<lambda>area_responses.
     and_then (for_each area_components area_responses) (\<lambda>components.
     and_then (py_getitem assessment ''id'') (\<lambda>i.
     Inr \<lparr> da_assessment_id = i, da_components = concat components \<rparr>))))"

definition dashboard_assessments :: "json \<Rightarrow> error + dashboard_assessment list" where
  "dashboard_assessments assessments =
     and_then (py_getitem assessments ''results'') (\<lambda>results.
     and_then (py_iter results) (\<lambda>rs. for_each dashboard_assessment_of rs))"

section \<open>The consideration flags of each assessment (lines 264 to 289)\<close>

record considerations =
  co_epi_considerations :: bool
  co_climate_environmental_considerations :: bool
  co_urban_considerations :: bool
  co_migration_considerations :: bool

definition any_component :: "(processed_component \<Rightarrow> bool) \<Rightarrow> processed_result \<Rightarrow> bool" where
  "any_component flag assessment =
     list_ex (\<lambda>area_response. list_ex flag (pa_component_responses area_response))
       (pr_area_responses assessment)"

definition considerations_of :: "processed_result \<Rightarrow> considerations" where
  "considerations_of assessment =
     \<lparr> co_epi_considerations =
         any_component pc_epi_considerations_simplified assessment,
       co_climate_environmental_considerations =
         any_component pc_climate_environmental_considerations_simplified assessment,
       co_urban_considerations =
         any_component pc_urban_considerations_simplified assessment,
       co_migration_considerations =
         any_component pc_migration_considerations_simplified assessment \<rparr>"

definition assessment_considerations_map ::
  "processed_result list \<Rightarrow> error + (json \<times> considerations) list" where
  "assessment_considerations_map processed_assessments =
     fold_err (\<lambda>m assessment. dict_set m (pr_id assessment) (considerations_of assessment))
       processed_assessments []"

section \<open>The status joiner (lines 291 to 367)\<close>

record joined_record =
  jr_id :: json
  jr_assessment_number :: json
  jr_date_of_assessment :: json
  jr_country_id :: json
  jr_country_name :: json
  jr_phase :: json
  jr_phase_display :: json
  jr_type_of_assessment :: json
  jr_type_of_assessment_name :: json
  jr_country_iso3 :: json
  jr_region_id :: json
  jr_region_name :: json
  jr_latitude :: json
  jr_longitude :: json
  jr_updated_at :: json
  jr_prioritized_components :: "prioritized_component list"
  jr_epi_considerations :: bool
  jr_climate_environmental_considerations :: bool
  jr_urban_considerations :: bool
  jr_migration_considerations :: bool
  jr_assess_preparedness_of_country :: json
  jr_assess_urban_aspect_of_country :: json
  jr_assess_climate_environment_of_country :: json
  jr_assess_migration_aspect_of_country :: json
  jr_components :: "dashboard_component list"

text \<open>
  \<^verbatim>\<open>country_data = country_map.get(country_iso3, {})\<close> is an entry of the country
  lookup or the empty dictionary (\<open>None\<close> here); \<^verbatim>\<open>country_data.get(key)\<close> reads it.
\<close>

definition country_data_get ::
  "country_entry option \<Rightarrow> (country_entry \<Rightarrow> json) \<Rightarrow> json" where
  "country_data_get country_data key =
     (case country_data of None \<Rightarrow> JNull | Some e \<Rightarrow> key e)"

text \<open>\<^verbatim>\<open>country_details.get(key) if country_details else None\<close>\<close>

definition inline_get :: "json \<Rightarrow> string \<Rightarrow> error + json" where
  "inline_get country_details key =
     (if truthy country_details then py_get country_details key JNull else Inr JNull)"

text \<open>The defaults of the lookups by status id and by assessment id.\<close>

definition no_considerations :: considerations where
  "no_considerations =
     \<lparr> co_epi_considerations = False,
       co_climate_environmental_considerations = False,
       co_urban_considerations = False,
       co_migration_considerations = False \<rparr>"

definition no_overview :: overview_fields where
  "no_overview =
     \<lparr> ov_assess_preparedness_of_country = JNull,
       ov_assess_urban_aspect_of_country = JNull,
       ov_assess_climate_environment_of_country = JNull,
       ov_assess_migration_aspect_of_country = JNull \<rparr>"

text \<open>The search for the dashboard assessment of a status (lines 302 to 306).\<close>

definition find_dashboard_components ::
  "dashboard_assessment list \<Rightarrow> json \<Rightarrow> dashboard_component list" where
  "find_dashboard_components das assessment =
     (case find (\<lambda>da. py_eq (da_assessment_id da) assessment) das of
        None \<Rightarrow> []
      | Some da \<Rightarrow> da_components da)"

text \<open>The relabelling of \<^verbatim>\<open>phase_display\<close> (lines 328 to 332).\<close>

definition remap_phase_display :: "json \<Rightarrow> json" where
  "remap_phase_display phase_display =
     (if py_eq phase_display (JStr ''Action And Accountability'')
      then JStr ''Action & accountability''
      else if py_eq phase_display (JStr ''WorkPlan'') then JStr ''Workplan''
      else phase_display)"

text \<open>
  \<^verbatim>\<open>coordinates[i] if len(coordinates) > i else None\<close>, for the latitude (\<open>i = 1\<close>)
  and the longitude (\<open>i = 0\<close>).
\<close>

definition coordinate :: "json \<Rightarrow> nat \<Rightarrow> error + json" where
  "coordinate coordinates i =
     and_then (py_len coordinates) (\<lambda>n.
     if n > i then py_item coordinates i else Inr JNull)"

text \<open>The body of the loop over the status records.\<close>

definition join_status ::
  "(json \<times> country_entry) list \<Rightarrow> (json \<times> prioritized_component list) list
     \<Rightarrow> dashboard_assessment list \<Rightarrow> (json \<times> considerations) list
     \<Rightarrow> (json \<times> overview_fields) list \<Rightarrow> json \<Rightarrow> error + joined_record" where
  "join_status cm pm das acm om status =
     and_then (py_get status ''country_details'' (JObj [])) (\<lambda>country_details.
     and_then (inline_get country_details ''iso3'') (\<lambda>country_iso3.
     and_then (dict_find cm country_iso3) (\<lambda>country_data.
     and_then (if truthy (country_data_get country_data ce_region)
               then Inr (country_data_get country_data ce_region)
               else inline_get country_details ''region'') (\<lambda>region_id.
     and_then (py_getitem status ''id'') (\<lambda>sid.
     and_then (dict_get pm sid []) (\<lambda>prioritization.
     and_then (py_get status ''assessment'' JNull) (\<lambda>assessment.
     let dashboard_components = find_dashboard_components das assessment in
     and_then (dict_get acm assessment no_considerations) (\<lambda>considerations.
     and_then (py_getitem status ''id'') (\<lambda>oid.
     and_then (dict_get om oid no_overview) (\<lambda>overview.
     and_then (py_get status ''phase_display'' (JStr [])) (\<lambda>phase_display0.
     let phase_display = remap_phase_display phase_display0;
         centroid = py_or (country_data_get country_data ce_centroid) (JObj []) in
     and_then (if truthy centroid
               then py_get centroid ''coordinates'' (JList [JNull, JNull])
               else Inr (JList [JNull, JNull])) (\<lambda>coordinates.
     and_then (py_getitem status ''id'') (\<lambda>i.
     and_then (py_get status ''assessment_number'' JNull) (\<lambda>assessment_number.
     and_then (py_get status ''date_of_assessment'' JNull) (\<lambda>date_of_assessment.
     and_then (py_get status ''country'' JNull) (\<lambda>country_id.
     and_then (inline_get country_details ''name'') (\<lambda>inline_name.
     let country_name = py_or inline_name (country_data_get country_data ce_name) in
     and_then (py_get status ''phase'' JNull) (\<lambda>phase.
     and_then (py_get status ''type_of_assessment'' JNull) (\<lambda>type_of_assessment.
     and_then (py_get status ''type_of_assessment_details'' JNull) (\<lambda>tad.
     and_then (if truthy tad
               then and_then (py_get status ''type_of_assessment_details'' (JObj []))
                      (\<lambda>d. py_get d ''name'' JNull)
               else Inr JNull) (\<lambda>type_of_assessment_name.
     and_then (inline_get country_details ''iso3'') (\<lambda>inline_iso3.
     let iso3 = py_or inline_iso3 (country_data_get country_data ce_iso3) in
     and_then (dict_get region_id_to_name_map region_id JNull) (\<lambda>region_name.
     and_then (coordinate coordinates 1) (\<lambda>latitude.
     and_then (coordinate coordinates 0) (\<lambda>longitude.
     and_then (py_get status ''updated_at'' JNull) (\<lambda>updated_at.
     Inr \<lparr> jr_id = i,
           jr_assessment_number = assessment_number,
           jr_date_of_assessment = date_of_assessment,
           jr_country_id = country_id,
           jr_country_name = country_name,
           jr_phase = phase,
           jr_phase_display = phase_display,
           jr_type_of_assessment = type_of_assessment,
           jr_type_of_assessment_name = type_of_assessment_name,
           jr_country_iso3 = iso3,
           jr_region_id = region_id,
           jr_region_name = region_name,
           jr_latitude = latitude,
           jr_longitude = longitude,
           jr_updated_at = updated_at,
           jr_prioritized_components = prioritization,
           jr_epi_considerations = co_epi_considerations considerations,
           jr_climate_environmental_considerations =
             co_climate_environmental_considerations considerations,
           jr_urban_considerations = co_urban_considerations considerations,
           jr_migration_considerations = co_migration_considerations considerations,
           jr_assess_preparedness_of_country =
             ov_assess_preparedness_of_country overview,
           jr_assess_urban_aspect_of_country =
             ov_assess_urban_aspect_of_country overview,
           jr_assess_climate_environment_of_country =
             ov_assess_climate_environment_of_country overview,
           jr_assess_migration_aspect_of_country =
             ov_assess_migration_aspect_of_country overview,
           jr_components = dashboard_components \<rparr>))))))))))))))))))))))))))"

definition joined_data ::
  "(json \<times> country_entry) list \<Rightarrow> (json \<times> prioritized_component list) list
     \<Rightarrow> dashboard_assessment list \<Rightarrow> (json \<times> considerations) list
     \<Rightarrow> (json \<times> overview_fields) list \<Rightarrow> json \<Rightarrow> error + joined_record list" where
  "joined_data cm pm das acm om per_status_data =
     and_then (py_getitem per_status_data ''results'') (\<lambda>results.
     and_then (py_iter results) (\<lambda>statuses.
     for_each (join_status cm pm das acm om) statuses))"

section \<open>Grouping by component (lines 369 to 432)\<close>

record assessment_summary =
  as_assessment_id :: json
  as_assessment_number :: json
  as_country_id :: json
  as_country_name :: json
  as_region_id :: json
  as_region_name :: json
  as_date_of_assessment :: json
  as_rating_value :: json
  as_rating_title :: json

record component_group =
  cg_component_id :: json
  cg_component_num :: json
  cg_component_name :: json
  cg_area_id :: json
  cg_area_name :: json
  cg_assessments :: "assessment_summary list"

definition summary_of :: "joined_record \<Rightarrow> json \<Rightarrow> json \<Rightarrow> assessment_summary" where
  "summary_of assessment rating_value rating_title =
     \<lparr> as_assessment_id = jr_id assessment,
       as_assessment_number = jr_assessment_number assessment,
       as_country_id = jr_country_id assessment,
       as_country_name = jr_country_name assessment,
       as_region_id = jr_region_id assessment,
       as_region_name = jr_region_name assessment,
       as_date_of_assessment = jr_date_of_assessment assessment,
       as_rating_value = rating_value,
       as_rating_title = rating_title \<rparr>"

text \<open>\<^verbatim>\<open>grouped[i]['assessments'].append(s)\<close>\<close>

definition append_assessment ::
  "component_group list \<Rightarrow> nat \<Rightarrow> assessment_summary \<Rightarrow> component_group list" where
  "append_assessment grouped i s =
     grouped[i := (grouped ! i)\<lparr> cg_assessments := cg_assessments (grouped ! i) @ [s] \<rparr>]"

text \<open>The search of lines 405 to 409: the index of the first group with that id.\<close>

fun find_group :: "component_group list \<Rightarrow> json \<Rightarrow> nat option" where
  "find_group [] component_id = None"
| "find_group (item # grouped) component_id =
     (if py_eq (cg_component_id item) component_id then Some 0
      else map_option Suc (find_group grouped component_id))"

text \<open>The body of the loop over the components of one joined record.\<close>

definition group_component ::
  "joined_record \<Rightarrow> component_group list \<Rightarrow> dashboard_component \<Rightarrow> component_group list" where
  "group_component assessment grouped component =
     (let component_id = dc_component_id component;
          s = summary_of assessment (dc_rating_value component) (dc_rating_title component)
      in case find_group grouped component_id of
           None \<Rightarrow>
             append_assessment
               (grouped @
                [\<lparr> cg_component_id = component_id,
                   cg_component_num = dc_component_num component,
                   cg_component_name = dc_component_name component,
                   cg_area_id = dc_area_id component,
                   cg_area_name = dc_area_name component,
                   cg_assessments = [] \<rparr>])
               (length grouped) s
         | Some i \<Rightarrow> append_assessment grouped i s)"

text \<open>The body of the loop over the joined records.\<close>

definition group_assessment ::
  "component_group list \<Rightarrow> joined_record \<Rightarrow> component_group list" where
  "group_assessment grouped assessment =
     (let components = jr_components assessment;
          empty_assessment = summary_of assessment JNull (JStr []);
          grouped =
            (if components = [] then
               (if grouped = [] then
                  [\<lparr> cg_component_id = JNull,
                     cg_component_num = JNull,
                     cg_component_name = JStr [],
                     cg_area_id = JNull,
                     cg_area_name = JStr [],
                     cg_assessments = [empty_assessment] \<rparr>]
                else append_assessment grouped 0 empty_assessment)
             else grouped)
      in foldl (group_component assessment) grouped components)"

definition grouped :: "joined_record list \<Rightarrow> component_group list" where
  "grouped joined = foldl group_assessment [] joined"

section \<open>The history of each country (lines 434 to 452)\<close>

record history_summary =
  hs_assessment_number :: json
  hs_date :: json
  hs_area_ratings :: json
  hs_components :: "dashboard_component list"
  hs_phase :: json
  hs_phase_display :: json

text \<open>A joined record has no key \<^verbatim>\<open>area_ratings\<close>: \<^verbatim>\<open>data.get('area_ratings')\<close> is \<^verbatim>\<open>None\<close>.\<close>

definition history_of :: "joined_record \<Rightarrow> history_summary" where
  "history_of data =
     \<lparr> hs_assessment_number = jr_assessment_number data,
       hs_date = jr_date_of_assessment data,
       hs_area_ratings = JNull,
       hs_components = jr_components data,
       hs_phase = jr_phase data,
       hs_phase_display = jr_phase_display data \<rparr>"

definition add_country_assessment ::
  "(json \<times> history_summary list) list \<Rightarrow> joined_record
     \<Rightarrow> error + (json \<times> history_summary list) list" where
  "add_country_assessment country_assessments data =
     (let country_name = jr_country_name data in
      and_then (dict_find country_assessments country_name) (\<lambda>found.
      Inr (dict_store country_assessments country_name
             ((case found of None \<Rightarrow> [] | Some xs \<Rightarrow> xs) @ [history_of data]))))"

text \<open>\<^verbatim>\<open>a['date'] if a['date'] else ''\<close>\<close>

definition date_key :: "history_summary \<Rightarrow> json" where
  "date_key a = (if truthy (hs_date a) then hs_date a else JStr [])"

definition str_key :: "history_summary \<Rightarrow> string" where
  "str_key a = (case date_key a of JStr s \<Rightarrow> s | _ \<Rightarrow> [])"

definition num_key :: "history_summary \<Rightarrow> rat" where
  "num_key a = (case num_value (date_key a) of Some r \<Rightarrow> r | None \<Rightarrow> 0)"

definition is_str :: "json \<Rightarrow> bool" where
  "is_str v = (case v of JStr s \<Rightarrow> True | _ \<Rightarrow> False)"

definition is_num :: "json \<Rightarrow> bool" where
  "is_num v = (num_value v \<noteq> None)"

text \<open>
  \<^verbatim>\<open>list.sort(key=...)\<close> is stable. Strings are ordered by code point and numbers by
  value; a list of fewer than two elements is never compared. Keys of two kinds, and
  dictionaries, cannot be ordered (\<^verbatim>\<open>TypeError\<close>). Dates that are lists are outside
  this model, which raises for them as well.
\<close>

definition sort_by_date :: "history_summary list \<Rightarrow> error + history_summary list" where
  "sort_by_date xs =
     (if length xs < 2 then Inr xs
      else if list_all (\<lambda>a. is_str (date_key a)) xs then Inr (sort_key str_key xs)
      else if list_all (\<lambda>a. is_num (date_key a)) xs then Inr (sort_key num_key xs)
      else Inl TypeError)"

definition sort_country ::
  "json \<times> history_summary list \<Rightarrow> error + (json \<times> history_summary list)" where
  "sort_country entry =
     and_then (sort_by_date (snd entry)) (\<lambda>sorted_list. Inr (fst entry, sorted_list))"

definition country_assessments ::
  "joined_record list \<Rightarrow> error + (json \<times> history_summary list) list" where
  "country_assessments joined =
     and_then (fold_err add_country_assessment joined []) (\<lambda>unsorted.
     for_each sort_country unsorted)"

section \<open>The pipeline\<close>

record outputs =
  out_map_data :: "joined_record list"
  out_component_descriptions :: "(json \<times> component_description) list"
  out_processed_assessments :: "processed_result list"
  out_assessments :: "component_group list"
  out_countryAssessments :: "(json \<times> history_summary list) list"

text \<open>The input data summary (lines 97 to 102): \<^verbatim>\<open>len(data["results"])\<close>.\<close>

definition results_len :: "json \<Rightarrow> error + nat" where
  "results_len d = and_then (py_getitem d ''results'') py_len"

definition process_data ::
  "json \<Rightarrow> json \<Rightarrow> json \<Rightarrow> json \<Rightarrow> json option \<Rightarrow> error + outputs" where
  "process_data per_status_data countries_data prioritization_data assessments
       per_overview_file =
     (let per_overview_data = read_overview per_overview_file in
      and_then (results_len assessments) (\<lambda>n1.
      and_then (results_len per_status_data) (\<lambda>n2.
      and_then (results_len countries_data) (\<lambda>n3.
      and_then (results_len prioritization_data) (\<lambda>n4.
      and_then (results_len per_overview_data) (\<lambda>n5.
      and_then (overview_map per_overview_data) (\<lambda>om.
      and_then (country_map countries_data) (\<lambda>cm.
      and_then (component_descriptions prioritization_data) (\<lambda>descriptions.
      and_then (prioritization_map prioritization_data) (\<lambda>pm.
      and_then (process_assessments assessments) (\<lambda>processed_assessments.
      and_then (dashboard_assessments assessments) (\<lambda>das.
      and_then (assessment_considerations_map processed_assessments) (\<lambda>acm.
      and_then (joined_data cm pm das acm om per_status_data) (\<lambda>joined.
      and_then (country_assessments joined) (\<lambda>history.
      Inr \<lparr> out_map_data = joined,
            out_component_descriptions = descriptions,
            out_processed_assessments = processed_assessments,
            out_assessments = grouped joined,
            out_countryAssessments = history \<rparr>)))))))))))))))"

section \<open>Well-formed status and country records\<close>

text \<open>
  The shape of a Status Record and of an entry of the country lookup. A status is an
  object with a scalar \<^verbatim>\<open>id\<close>; its \<^verbatim>\<open>country_details\<close> and
  \<^verbatim>\<open>type_of_assessment_details\<close> are objects, null or left out; the keys it is joined
  on are scalars. The centroid of a country is an object, null or left out, and its
  \<^verbatim>\<open>coordinates\<close>, when given, are a list. Nothing is asked of the lookups: a status
  may match no country, prioritization, assessment or overview.
\<close>

definition field_or :: "json \<Rightarrow> string \<Rightarrow> json \<Rightarrow> json" where
  "field_or d k dflt =
     (case d of JObj kvs \<Rightarrow> (case map_of kvs k of None \<Rightarrow> dflt | Some v \<Rightarrow> v)
      | _ \<Rightarrow> dflt)"

definition country_entry_ok :: "country_entry \<Rightarrow> bool" where
  "country_entry_ok e =
     (hashable (ce_region e) \<and> object_or_falsy (ce_centroid e)
      \<and> list_field_ok (ce_centroid e) ''coordinates'')"

definition status_ok :: "json \<Rightarrow> bool" where
  "status_ok status =
     (has_key status ''id'' \<and> hashable (field_of status ''id'')
      \<and> object_or_falsy (field_of status ''country_details'')
      \<and> hashable (field_of (field_of status ''country_details'') ''iso3'')
      \<and> hashable (field_of (field_of status ''country_details'') ''region'')
      \<and> hashable (field_of status ''assessment'')
      \<and> object_or_falsy (field_of status ''type_of_assessment_details''))"

text \<open>The coordinates read from a centroid (line 336), when they are a list.\<close>

definition coordinates_of :: "json \<Rightarrow> json list" where
  "coordinates_of centroid =
     (if has_key centroid ''coordinates'' then list_field centroid ''coordinates''
      else [JNull, JNull])"

section \<open>The invariant of the country history loop\<close>

text \<open>
  After the records \<open>seen\<close> the dictionary holds, under each key, the summaries of the
  records seen whose country name equals the key, in the order met; no key equals a
  later key; and every record seen has its key.
\<close>

definition history_inv ::
  "(json \<times> history_summary list) list \<Rightarrow> joined_record list \<Rightarrow> bool" where
  "history_inv d seen =
     ((\<forall>e \<in> set d. hashable (fst e) \<and>
          snd e = map history_of (filter (\<lambda>r. py_eq (fst e) (jr_country_name r)) seen))
      \<and> sorted_wrt (\<lambda>x y. \<not> py_eq x y) (map fst d)
      \<and> (\<forall>r \<in> set seen. \<exists>e \<in> set d. py_eq (fst e) (jr_country_name r)))"

section \<open>Example inputs\<close>

definition example_assessment :: json where
  "example_assessment =
     JObj [(''id'', JInt 10),
           (''area_responses'', JList [
              JObj [(''id'', JInt 1),
                    (''component_responses'', JList [
                       JObj [(''id'', JInt 100), (''component'', JInt 5),
                             (''rating_details'', JObj [(''value'', JInt 3)]),
                             (''urban_considerations'', JStr ''Yes'')],
                       JObj [(''id'', JInt 101), (''component_details'', JNull)]])],
              JObj [(''id'', JInt 2)]])]"

definition example_component :: "json \<Rightarrow> dashboard_component" where
  "example_component component_id =
     \<lparr> dc_component_id = component_id,
       dc_component_name = JStr ''Name'',
       dc_component_num = JInt 1,
       dc_area_id = JInt 1,
       dc_area_name = JStr ''Policy Strategy and Standards'',
       dc_rating_value = JInt 3,
       dc_rating_title = JStr ''High'' \<rparr>"

definition example_joined ::
  "json \<Rightarrow> json \<Rightarrow> json \<Rightarrow> dashboard_component list \<Rightarrow> joined_record" where
  "example_joined i country_name date components =
     \<lparr> jr_id = i,
       jr_assessment_number = JInt 1,
       jr_date_of_assessment = date,
       jr_country_id = JInt 7,
       jr_country_name = country_name,
       jr_phase = JInt 1,
       jr_phase_display = JStr ''Workplan'',
       jr_type_of_assessment = JNull,
       jr_type_of_assessment_name = JNull,
       jr_country_iso3 = JNull,
       jr_region_id = JNull,
       jr_region_name = JNull,
       jr_latitude = JNull,
       jr_longitude = JNull,
       jr_updated_at = JNull,
       jr_prioritized_components = [],
       jr_epi_considerations = False,
       jr_climate_environmental_considerations = False,
       jr_urban_considerations = False,
       jr_migration_considerations = False,
       jr_assess_preparedness_of_country = JNull,
       jr_assess_urban_aspect_of_country = JNull,
       jr_assess_climate_environment_of_country = JNull,
       jr_assess_migration_aspect_of_country = JNull,
       jr_components = components \<rparr>"

definition example_joined_data :: "joined_record list" where
  "example_joined_data =
     [example_joined (JInt 1) (JStr ''Kenya'') (JStr ''2021-03-01'') [],
      example_joined (JInt 2) (JStr ''Peru'') JNull
        [example_component JNull, example_component (JInt 5)],
      example_joined (JInt 3) (JStr ''Kenya'') (JStr ''2019-06-30'')
        [example_component (JInt 5)],
      example_joined (JInt 4) (JStr ''Kenya'') (JStr ''2021-03-01'')
        [example_component JNull]]"

text \<open>
  A country lookup with two entries (Kenya, in region 0, with a centroid of a single
  coordinate, and Peru), an overview lookup, and status records: one that matches
  nothing, one for Kenya without inline region, one for Peru with every inline
  field, and one with every inline field that matches no country.
\<close>

definition example_country_map :: "(json \<times> country_entry) list" where
  "example_country_map =
     [(JStr ''KEN'',
       \<lparr> ce_centroid = JObj [(''coordinates'', JList [JInt 38])],
         ce_iso3 = JStr ''KEN'',
         ce_region = JInt 0,
         ce_name = JStr ''Kenya'' \<rparr>),
      (JStr ''PER'',
       \<lparr> ce_centroid = JObj [(''coordinates'', JList [JInt (-75), JInt (-10)])],
         ce_iso3 = JStr ''PER'',
         ce_region = JInt 1,
         ce_name = JStr ''Peru'' \<rparr>)]"

definition example_overview_map :: "(json \<times> overview_fields) list" where
  "example_overview_map =
     [(JInt 2,
       \<lparr> ov_assess_preparedness_of_country = JBool True,
         ov_assess_urban_aspect_of_country = JBool False,
         ov_assess_climate_environment_of_country = JNull,
         ov_assess_migration_aspect_of_country = JBool True \<rparr>)]"

definition example_status_unmatched :: json where
  "example_status_unmatched =
     JObj [(''id'', JInt 1), (''assessment'', JInt 99),
           (''country_details'', JObj [(''iso3'', JStr ''XXX'')])]"

definition example_status_kenya :: json where
  "example_status_kenya =
     JObj [(''id'', JInt 2), (''assessment'', JInt 10),
           (''country_details'', JObj [(''iso3'', JStr ''KEN''), (''name'', JStr ''Kenya'')])]"

definition example_status_peru :: json where
  "example_status_peru =
     JObj [(''id'', JInt 3),
           (''country_details'',
            JObj [(''iso3'', JStr ''PER''), (''name'', JStr ''Peru (inline)''),
                  (''region'', JInt 2),
                  (''centroid'', JObj [(''coordinates'', JList [JInt 1, JInt 2])])])]"

definition example_status_inline_only :: json where
  "example_status_inline_only =
     JObj [(''id'', JInt 4),
           (''country_details'',
            JObj [(''iso3'', JStr ''XXX''), (''name'', JStr ''Atlantis''),
                  (''region'', JInt 3),
                  (''centroid'', JObj [(''coordinates'', JList [JInt 1, JInt 2])])])]"

definition example_status_data :: json where
  "example_status_data =
     JObj [(''results'',
            JList [example_status_unmatched, example_status_kenya, example_status_peru])]"

definition example_overview_data :: json where
  "example_overview_data =
     JObj [(''results'',
            JList [JObj [(''id'', JInt 2), (''assess_preparedness_of_country'', JBool True),
                         (''assess_urban_aspect_of_country'', JBool False),
                         (''assess_migration_aspect_of_country'', JBool True)]])]"

text \<open>The collections from which the lookups above are built.\<close>

definition example_countries_data :: json where
  "example_countries_data =
     JObj [(''results'',
            JList [JObj [(''iso3'', JStr ''KEN''), (''name'', JStr ''Kenya''),
                         (''region'', JInt 0),
                         (''centroid'', JObj [(''coordinates'', JList [JInt 38])])],
                   JObj [(''iso3'', JStr ''PER''), (''name'', JStr ''Peru''),
                         (''region'', JInt 1),
                         (''centroid'',
                          JObj [(''coordinates'', JList [JInt (-75), JInt (-10)])])]])]"

definition example_empty_data :: json where
  "example_empty_data = JObj [(''results'', JList [])]"

section \<open>Properties of the Python operations\<close>

lemma and_then_Inr [simp]: "and_then (Inr x) f = f x"
  by (simp add: and_then_def)

lemma and_then_Inl [simp]: "and_then (Inl e) f = Inl e"
  by (simp add: and_then_def)

lemma starts_with_iff: "starts_with w t \<longleftrightarrow> (\<exists>post. t = w @ post)"
  by (induction w t rule: starts_with.induct) auto

lemma str_in_iff: "str_in w t \<longleftrightarrow> (\<exists>pre post. t = pre @ w @ post)"
proof (induction t)
  case Nil
  then show ?case by simp
next
  case (Cons c cs)
  show ?case
  proof
    assume "str_in w (c # cs)"
    then consider "starts_with w (c # cs)" | "str_in w cs" by auto
    then show "\<exists>pre post. c # cs = pre @ w @ post"
    proof cases
      case 1
      then obtain post where "c # cs = w @ post" by (auto simp: starts_with_iff)
      then have "c # cs = [] @ w @ post" by simp
      then show ?thesis by blast
    next
      case 2
      then obtain pre post where "cs = pre @ w @ post" using Cons.IH by blast
      then have "c # cs = (c # pre) @ w @ post" by simp
      then show ?thesis by blast
    qed
  next
    assume "\<exists>pre post. c # cs = pre @ w @ post"
    then obtain pre post where e: "c # cs = pre @ w @ post" by blast
    show "str_in w (c # cs)"
    proof (cases pre)
      case Nil
      with e have "starts_with w (c # cs)" by (auto simp: starts_with_iff)
      then show ?thesis by simp
    next
      case (Cons p ps)
      with e have "cs = ps @ w @ post" by simp
      then have "str_in w cs" using Cons.IH by blast
      then show ?thesis by simp
    qed
  qed
qed

section \<open>The text classifier matches substrings\<close>

lemma business_code_points:
  "code_points ''business'' = [98, 117, 115, 105, 110, 101, 115, 115]"
  by (simp add: code_points_def)

lemma business_lower:
  "str_lower [98, 117, 115, 105, 110, 101, 115, 115] = [98, 117, 115, 105, 110, 101, 115, 115]"
  by (simp add: str_lower_def lower_cp_def)

lemma nfd_ascii: "c < 192 \<Longrightarrow> map_of nfd_table c = None"
  by (simp add: nfd_table_def)

lemma business_NFD:
  "normalize_NFD [98, 117, 115, 105, 110, 101, 115, 115] = [98, 117, 115, 105, 110, 101, 115, 115]"
  by (simp add: normalize_NFD_def nfd_ascii)

lemma business_filter:
  "filter (\<lambda>char. \<not> category_Mn char) [98, 117, 115, 105, 110, 101, 115, 115]
     = [98, 117, 115, 105, 110, 101, 115, 115]"
  by (simp add: category_Mn_def)

lemma business_si: "str_in (code_points ''si'') [98, 117, 115, 105, 110, 101, 115, 115::nat]"
  by (simp add: code_points_def)

text \<open>
  Claim C2, as amended. For the input \<^verbatim>\<open>"business"\<close> the classifier returns true:
  matching is substring containment on the lower-cased text without its accents, so
  it fires on every non-empty text in which one of the affirmative words occurs
  anywhere, also inside a longer word.
\<close>

theorem classifier_matches_substrings:
  "contains_affirmative_word (JStr ''business'') = True \<and>
   contains_affirmative_word (JStr s) =
     (s \<noteq> [] \<and>
      (\<exists>word \<in> set affirmative_words. \<exists>pre post.
         filter (\<lambda>char. \<not> category_Mn char) (normalize_NFD (str_lower (code_points s)))
           = pre @ word @ post))"
proof
  show "contains_affirmative_word (JStr ''business'') = True"
    unfolding contains_affirmative_word_def json.case Let_def business_code_points
      business_lower business_NFD business_filter
    by (simp add: affirmative_words_def business_si del: str_in.simps)
next
  show "contains_affirmative_word (JStr s) =
     (s \<noteq> [] \<and>
      (\<exists>word \<in> set affirmative_words. \<exists>pre post.
         filter (\<lambda>char. \<not> category_Mn char) (normalize_NFD (str_lower (code_points s)))
           = pre @ word @ post))"
    unfolding contains_affirmative_word_def json.case Let_def list_ex_iff str_in_iff
    by (cases "s = []") simp_all
qed

text \<open>
  Claim C2 as stated fails: the classifier does not return false on \<^verbatim>\<open>"business"\<close>.
\<close>

theorem classifier_business_counterexample:
  "\<not> (contains_affirmative_word (JStr ''business'') = False)"
  unfolding contains_affirmative_word_def json.case Let_def business_code_points
    business_lower business_NFD business_filter
  by (simp add: affirmative_words_def business_si del: str_in.simps)

section \<open>The normalizer preserves the structure of an assessment\<close>

lemma py_get_field: "is_object d \<Longrightarrow> py_get d k JNull = Inr (field_of d k)"
  by (cases d) (simp_all add: is_object_def field_of_def py_get_def split: option.splits)

lemma py_getitem_field: "has_key d k \<Longrightarrow> py_getitem d k = Inr (field_of d k)"
  by (cases d) (auto simp: has_key_def field_of_def py_getitem_def split: option.splits)

lemma has_key_is_object: "has_key d k \<Longrightarrow> is_object d"
  by (cases d) (simp_all add: has_key_def is_object_def)

lemma py_or_object: "object_or_falsy v \<Longrightarrow> is_object (py_or v (JObj []))"
  by (auto simp: object_or_falsy_def py_or_def is_object_def)

lemma for_each_length: "for_each f xs = Inr ys \<Longrightarrow> length ys = length xs"
  by (induction xs arbitrary: ys) (auto split: sum.splits)

lemma for_each_nth:
  "for_each f xs = Inr ys \<Longrightarrow> i < length xs \<Longrightarrow> f (xs ! i) = Inr (ys ! i)"
proof (induction xs arbitrary: ys i)
  case Nil
  then show ?case by simp
next
  case (Cons x xs)
  then show ?case by (cases i) (auto split: sum.splits)
qed

lemma for_each_total:
  "\<forall>x \<in> set xs. \<exists>y. f x = Inr y \<Longrightarrow> \<exists>ys. for_each f xs = Inr ys"
  by (induction xs) (auto split: sum.splits)

lemma py_get_list_field:
  "is_object d \<Longrightarrow> list_field_ok d k \<Longrightarrow>
     \<exists>v. py_get d k (JList []) = Inr v \<and> py_iter v = Inr (list_field d k)"
  by (cases d)
     (auto simp: is_object_def list_field_ok_def list_field_def field_of_def has_key_def
        py_get_def py_iter_def split: option.splits json.splits)

lemma process_component_ok:
  assumes "component_response_ok c"
  shows "\<exists>p. process_component c = Inr p \<and> pc_id p = field_of c ''id''"
proof -
  from assms have obj: "is_object c" and k: "has_key c ''id''"
    and o1: "is_object (py_or (field_of c ''component_details'') (JObj []))"
    and o2: "is_object (py_or (field_of c ''rating_details'') (JObj []))"
    by (auto simp: component_response_ok_def has_key_is_object py_or_object)
  show ?thesis
    unfolding process_component_def
    by (simp add: py_get_field[OF obj] py_get_field[OF o1] py_get_field[OF o2]
        py_getitem_field[OF k] Let_def)
qed

lemma process_area_ok:
  assumes "area_response_ok a"
  shows "\<exists>pa. process_area a = Inr pa \<and> pa_id pa = field_of a ''id''
           \<and> for_each process_component (list_field a ''component_responses'')
               = Inr (pa_component_responses pa)"
proof -
  from assms have k: "has_key a ''id''" and l: "list_field_ok a ''component_responses''"
    and cs: "list_all component_response_ok (list_field a ''component_responses'')"
    by (auto simp: area_response_ok_def)
  from cs have "\<forall>c \<in> set (list_field a ''component_responses'').
      \<exists>p. process_component c = Inr p"
    using process_component_ok by (auto simp: list_all_iff)
  then obtain pcs where
    pcs: "for_each process_component (list_field a ''component_responses'') = Inr pcs"
    using for_each_total by blast
  from py_get_list_field[OF has_key_is_object[OF k] l] obtain v where
    v: "py_get a ''component_responses'' (JList []) = Inr v"
       "py_iter v = Inr (list_field a ''component_responses'')"
    by blast
  show ?thesis
    unfolding process_area_def by (simp add: py_getitem_field[OF k] v pcs)
qed

lemma process_result_ok:
  assumes "assessment_ok r"
  shows "\<exists>pr. process_result r = Inr pr \<and> pr_id pr = field_of r ''id''
           \<and> for_each process_area (list_field r ''area_responses'')
               = Inr (pr_area_responses pr)"
proof -
  from assms have k: "has_key r ''id''" and l: "list_field_ok r ''area_responses''"
    and cs: "list_all area_response_ok (list_field r ''area_responses'')"
    by (auto simp: assessment_ok_def)
  from cs have "\<forall>a \<in> set (list_field r ''area_responses''). \<exists>p. process_area a = Inr p"
    using process_area_ok by (fastforce simp: list_all_iff)
  then obtain pas where
    pas: "for_each process_area (list_field r ''area_responses'') = Inr pas"
    using for_each_total by blast
  from py_get_list_field[OF has_key_is_object[OF k] l] obtain v where
    v: "py_get r ''area_responses'' (JList []) = Inr v"
       "py_iter v = Inr (list_field r ''area_responses'')"
    by blast
  show ?thesis
    unfolding process_result_def by (simp add: py_getitem_field[OF k] v pas)
qed

text \<open>
  Claim C3. For every Assessment Record the normalizer returns a Normalized Assessment
  with the same number of area responses, each with the same number of component
  responses, in the order of the input: the area at position \<open>i\<close> and the component
  at position \<open>j\<close> of it are the ones the input holds at these positions.
\<close>

theorem normalizer_preserves_structure:
  assumes "assessment_ok result"
  shows "\<exists>pr. process_result result = Inr pr \<and> pr_id pr = field_of result ''id'' \<and>
     length (pr_area_responses pr) = length (list_field result ''area_responses'') \<and>
     (\<forall>i < length (list_field result ''area_responses'').
        pa_id (pr_area_responses pr ! i)
          = field_of (list_field result ''area_responses'' ! i) ''id'' \<and>
        length (pa_component_responses (pr_area_responses pr ! i))
          = length (list_field (list_field result ''area_responses'' ! i)
              ''component_responses'') \<and>
        (\<forall>j < length (list_field (list_field result ''area_responses'' ! i)
                ''component_responses'').
           process_component
             (list_field (list_field result ''area_responses'' ! i) ''component_responses'' ! j)
             = Inr (pa_component_responses (pr_area_responses pr ! i) ! j) \<and>
           pc_id (pa_component_responses (pr_area_responses pr ! i) ! j)
             = field_of (list_field (list_field result ''area_responses'' ! i)
                 ''component_responses'' ! j) ''id''))"
proof -
  let ?areas = "list_field result ''area_responses''"
  from process_result_ok[OF assms] obtain pr where
    pr: "process_result result = Inr pr" "pr_id pr = field_of result ''id''"
        "for_each process_area ?areas = Inr (pr_area_responses pr)"
    by blast
  have len: "length (pr_area_responses pr) = length ?areas"
    using for_each_length[OF pr(3)] .
  have areas_ok: "\<forall>a \<in> set ?areas. area_response_ok a"
    using assms by (simp add: assessment_ok_def list_all_iff)
  have "pa_id (pr_area_responses pr ! i) = field_of (?areas ! i) ''id'' \<and>
        length (pa_component_responses (pr_area_responses pr ! i))
          = length (list_field (?areas ! i) ''component_responses'') \<and>
        (\<forall>j < length (list_field (?areas ! i) ''component_responses'').
           process_component (list_field (?areas ! i) ''component_responses'' ! j)
             = Inr (pa_component_responses (pr_area_responses pr ! i) ! j) \<and>
           pc_id (pa_component_responses (pr_area_responses pr ! i) ! j)
             = field_of (list_field (?areas ! i) ''component_responses'' ! j) ''id'')"
    if i: "i < length ?areas" for i
  proof -
    let ?a = "?areas ! i"
    let ?comps = "list_field ?a ''component_responses''"
    have ok: "area_response_ok ?a" using areas_ok i by simp
    from process_area_ok[OF ok] obtain pa where
      pa: "process_area ?a = Inr pa" "pa_id pa = field_of ?a ''id''"
          "for_each process_component ?comps = Inr (pa_component_responses pa)"
      by blast
    have eq: "pr_area_responses pr ! i = pa"
      using for_each_nth[OF pr(3) i] pa(1) by simp
    have comps_ok: "\<forall>c \<in> set ?comps. component_response_ok c"
      using ok by (simp add: area_response_ok_def list_all_iff)
    have "process_component (?comps ! j) = Inr (pa_component_responses pa ! j) \<and>
          pc_id (pa_component_responses pa ! j) = field_of (?comps ! j) ''id''"
      if j: "j < length ?comps" for j
    proof -
      have "component_response_ok (?comps ! j)" using comps_ok j by simp
      from process_component_ok[OF this] obtain p where
        p: "process_component (?comps ! j) = Inr p" "pc_id p = field_of (?comps ! j) ''id''"
        by blast
      with for_each_nth[OF pa(3) j] show ?thesis by simp
    qed
    with pa(2) for_each_length[OF pa(3)] eq show ?thesis by simp
  qed
  with pr(1,2) len show ?thesis by blast
qed

theorem normalizer_preserves_structure_witness:
  "assessment_ok example_assessment \<and>
   (\<exists>pr. process_result example_assessment = Inr pr \<and>
      length (pr_area_responses pr) = 2 \<and>
      length (pa_component_responses (pr_area_responses pr ! 0)) = 2 \<and>
      length (pa_component_responses (pr_area_responses pr ! 1)) = 0 \<and>
      pc_id (pa_component_responses (pr_area_responses pr ! 0) ! 1) = JInt 101)"
proof -
  have ok: "assessment_ok example_assessment"
    by (simp add: example_assessment_def assessment_ok_def area_response_ok_def
        component_response_ok_def has_key_def list_field_ok_def list_field_def field_of_def
        object_or_falsy_def is_object_def)
  have areas: "list_field example_assessment ''area_responses'' =
      [JObj [(''id'', JInt 1),
                    (''component_responses'', JList [
                       JObj [(''id'', JInt 100), (''component'', JInt 5),
                             (''rating_details'', JObj [(''value'', JInt 3)]),
                             (''urban_considerations'', JStr ''Yes'')],
                       JObj [(''id'', JInt 101), (''component_details'', JNull)]])],
              JObj [(''id'', JInt 2)]]"
    by (simp add: example_assessment_def list_field_def field_of_def)
  from normalizer_preserves_structure[OF ok] obtain pr where
    pr: "process_result example_assessment = Inr pr"
      "length (pr_area_responses pr) = length (list_field example_assessment ''area_responses'')"
      "\<forall>i < length (list_field example_assessment ''area_responses'').
        pa_id (pr_area_responses pr ! i)
          = field_of (list_field example_assessment ''area_responses'' ! i) ''id'' \<and>
        length (pa_component_responses (pr_area_responses pr ! i))
          = length (list_field (list_field example_assessment ''area_responses'' ! i)
              ''component_responses'') \<and>
        (\<forall>j < length (list_field (list_field example_assessment ''area_responses'' ! i)
                ''component_responses'').
           process_component
             (list_field (list_field example_assessment ''area_responses'' ! i) ''component_responses'' ! j)
             = Inr (pa_component_responses (pr_area_responses pr ! i) ! j) \<and>
           pc_id (pa_component_responses (pr_area_responses pr ! i) ! j)
             = field_of (list_field (list_field example_assessment ''area_responses'' ! i)
                 ''component_responses'' ! j) ''id'')"
    by blast
  have c0: "list_field (list_field example_assessment ''area_responses'' ! 0)
      ''component_responses'' =
      [JObj [(''id'', JInt 100), (''component'', JInt 5),
             (''rating_details'', JObj [(''value'', JInt 3)]),
             (''urban_considerations'', JStr ''Yes'')],
       JObj [(''id'', JInt 101), (''component_details'', JNull)]]"
    unfolding areas by (simp add: list_field_def field_of_def)
  have c1: "list_field (list_field example_assessment ''area_responses'' ! 1)
      ''component_responses'' = []"
    unfolding areas by (simp add: list_field_def field_of_def)
  have l: "length (pr_area_responses pr) = 2" using pr(2) by (simp add: areas)
  have "0 < length (list_field example_assessment ''area_responses'')"
    by (simp add: areas)
  from pr(3)[rule_format, OF this]
  have a0: "length (pa_component_responses (pr_area_responses pr ! 0)) = 2
      \<and> pc_id (pa_component_responses (pr_area_responses pr ! 0) ! 1) = JInt 101"
    unfolding c0 by (simp add: All_less_Suc field_of_def)
  have "1 < length (list_field example_assessment ''area_responses'')"
    by (simp add: areas)
  from pr(3)[rule_format, OF this]
  have a1: "length (pa_component_responses (pr_area_responses pr ! 1)) = 0"
    unfolding c1 by simp
  from ok pr(1) l a0 a1 show ?thesis by blast
qed

section \<open>Grouping by component\<close>

lemma find_group_Some:
  "find_group g c = Some i \<Longrightarrow> i < length g \<and> py_eq (cg_component_id (g ! i)) c"
proof (induction g arbitrary: i)
  case Nil
  then show ?case by simp
next
  case (Cons b g)
  then show ?case by (cases "py_eq (cg_component_id b) c") auto
qed

lemma find_group_first:
  "find_group g c = Some i \<Longrightarrow> k < i \<Longrightarrow> \<not> py_eq (cg_component_id (g ! k)) c"
proof (induction g arbitrary: i k)
  case Nil
  then show ?case by simp
next
  case (Cons b g)
  show ?case
  proof (cases "py_eq (cg_component_id b) c")
    case True
    with Cons.prems show ?thesis by simp
  next
    case False
    with Cons.prems obtain i' where i': "find_group g c = Some i'" "i = Suc i'" by auto
    show ?thesis
    proof (cases k)
      case 0
      with False show ?thesis by simp
    next
      case (Suc k')
      with Cons.prems(2) i' have "k' < i'" by simp
      from Cons.IH[OF i'(1) this] Suc show ?thesis by simp
    qed
  qed
qed

lemma find_group_None:
  "find_group g c = None \<longleftrightarrow> (\<forall>b \<in> set g. \<not> py_eq (cg_component_id b) c)"
  by (induction g) auto

lemma ids_append_assessment:
  "map cg_component_id (append_assessment g i s) = map cg_component_id g"
proof (cases "i < length g")
  case True
  then show ?thesis
    by (auto intro!: nth_equalityI simp: append_assessment_def nth_list_update)
next
  case False
  then have "length g \<le> i" by simp
  then show ?thesis by (simp add: append_assessment_def list_update_beyond)
qed

lemma length_append_assessment: "length (append_assessment g i s) = length g"
  by (simp add: append_assessment_def)

lemma total_append_assessment:
  assumes "i < length g"
  shows "(\<Sum>b\<leftarrow>append_assessment g i s. length (cg_assessments b))
           = (\<Sum>b\<leftarrow>g. length (cg_assessments b)) + 1"
proof -
  have "(\<Sum>b\<leftarrow>append_assessment g i s. length (cg_assessments b))
      = sum_list ((map (\<lambda>b. length (cg_assessments b)) g)
          [i := Suc (length (cg_assessments (g ! i)))])"
    by (simp add: append_assessment_def map_update)
  also have "\<dots> = (\<Sum>b\<leftarrow>g. length (cg_assessments b))
      + Suc (length (cg_assessments (g ! i))) - length (cg_assessments (g ! i))"
    using assms by (simp add: sum_list_update)
  finally show ?thesis by simp
qed

lemma total_group_component:
  "(\<Sum>b\<leftarrow>group_component a g c. length (cg_assessments b))
     = (\<Sum>b\<leftarrow>g. length (cg_assessments b)) + 1"
proof (cases "find_group g (dc_component_id c)")
  case None
  then show ?thesis
    by (simp add: group_component_def Let_def total_append_assessment)
next
  case (Some i)
  with find_group_Some[OF Some] show ?thesis
    by (simp add: group_component_def Let_def total_append_assessment)
qed

lemma total_foldl_group_component:
  "(\<Sum>b\<leftarrow>foldl (group_component a) g cs. length (cg_assessments b))
     = (\<Sum>b\<leftarrow>g. length (cg_assessments b)) + length cs"
  by (induction cs arbitrary: g) (simp_all add: total_group_component)

lemma total_group_assessment:
  "(\<Sum>b\<leftarrow>group_assessment g a. length (cg_assessments b))
     = (\<Sum>b\<leftarrow>g. length (cg_assessments b)) + max 1 (length (jr_components a))"
proof (cases "jr_components a = []")
  case True
  then show ?thesis
    by (cases "g = []") (simp_all add: group_assessment_def Let_def total_append_assessment)
next
  case False
  then have "max 1 (length (jr_components a)) = length (jr_components a)"
    by (cases "jr_components a") simp_all
  with False show ?thesis
    by (simp add: group_assessment_def Let_def total_foldl_group_component)
qed

lemma total_foldl_group_assessment:
  "(\<Sum>b\<leftarrow>foldl group_assessment g joined. length (cg_assessments b))
     = (\<Sum>b\<leftarrow>g. length (cg_assessments b))
       + (\<Sum>r\<leftarrow>joined. max 1 (length (jr_components r)))"
  by (induction joined arbitrary: g) (simp_all add: total_group_assessment)

lemma ids_group_component:
  "map cg_component_id (group_component a g c) =
     (case find_group g (dc_component_id c) of
        None \<Rightarrow> map cg_component_id g @ [dc_component_id c]
      | Some i \<Rightarrow> map cg_component_id g)"
  by (simp add: group_component_def Let_def ids_append_assessment split: option.splits)

lemma distinct_group_component:
  assumes "sorted_wrt (\<lambda>x y. \<not> py_eq x y) (map cg_component_id g)"
  shows "sorted_wrt (\<lambda>x y. \<not> py_eq x y) (map cg_component_id (group_component a g c))"
proof (cases "find_group g (dc_component_id c)")
  case None
  then have "\<forall>b \<in> set g. \<not> py_eq (cg_component_id b) (dc_component_id c)"
    by (simp add: find_group_None)
  with assms None show ?thesis
    by (simp add: ids_group_component sorted_wrt_append)
next
  case (Some i)
  with assms show ?thesis by (simp add: ids_group_component)
qed

lemma distinct_foldl_group_component:
  "sorted_wrt (\<lambda>x y. \<not> py_eq x y) (map cg_component_id g) \<Longrightarrow>
   sorted_wrt (\<lambda>x y. \<not> py_eq x y) (map cg_component_id (foldl (group_component a) g cs))"
  by (induction cs arbitrary: g) (simp_all add: distinct_group_component)

lemma distinct_group_assessment:
  assumes "sorted_wrt (\<lambda>x y. \<not> py_eq x y) (map cg_component_id g)"
  shows "sorted_wrt (\<lambda>x y. \<not> py_eq x y) (map cg_component_id (group_assessment g a))"
proof (cases "jr_components a = []")
  case True
  with assms show ?thesis
    by (cases "g = []") (simp_all add: group_assessment_def Let_def ids_append_assessment)
next
  case False
  with assms show ?thesis
    by (simp add: group_assessment_def Let_def distinct_foldl_group_component)
qed

lemma distinct_foldl_group_assessment:
  "sorted_wrt (\<lambda>x y. \<not> py_eq x y) (map cg_component_id g) \<Longrightarrow>
   sorted_wrt (\<lambda>x y. \<not> py_eq x y) (map cg_component_id (foldl group_assessment g joined))"
  by (induction joined arbitrary: g) (simp_all add: distinct_group_assessment)

lemma distinct_grouped:
  "sorted_wrt (\<lambda>x y. \<not> py_eq x y) (map cg_component_id (grouped joined))"
  by (simp add: grouped_def distinct_foldl_group_assessment)

lemma py_eq_JNull: "py_eq x JNull \<longleftrightarrow> x = JNull"
  by (cases x) simp_all

lemma py_eq_refl_hashable: "hashable x \<Longrightarrow> py_eq x x"
  by (cases x) (simp_all add: hashable_def)

text \<open>
  Claim C7. The assessment summaries of all the groups together are as many as the sum,
  over the joined records, of \<open>max 1 n\<close> where \<open>n\<close> is the number of dashboard
  components of the record: every component occurrence adds one summary, and a record
  with no component adds one empty summary.
\<close>

theorem grouping_law:
  "(\<Sum>b\<leftarrow>grouped joined. length (cg_assessments b))
     = (\<Sum>r\<leftarrow>joined. max 1 (length (jr_components r)))"
  by (simp add: grouped_def total_foldl_group_assessment)

section \<open>The groups have distinct component ids\<close>

lemma find_group_eq_Some:
  "i < length g \<Longrightarrow> py_eq (cg_component_id (g ! i)) c \<Longrightarrow>
   (\<forall>k<i. \<not> py_eq (cg_component_id (g ! k)) c) \<Longrightarrow> find_group g c = Some i"
proof (induction g arbitrary: i)
  case Nil
  then show ?case by simp
next
  case (Cons b g)
  show ?case
  proof (cases i)
    case 0
    with Cons.prems show ?thesis by simp
  next
    case (Suc i')
    with Cons.prems have b: "\<not> py_eq (cg_component_id b) c" by auto
    have "find_group g c = Some i'"
    proof (rule Cons.IH)
      show "i' < length g" using Cons.prems(1) Suc by simp
      show "py_eq (cg_component_id (g ! i')) c" using Cons.prems(2) Suc by simp
      show "\<forall>k<i'. \<not> py_eq (cg_component_id (g ! k)) c"
      proof (intro allI impI)
        fix k assume "k < i'"
        then have "Suc k < i" using Suc by simp
        with Cons.prems(3) have "\<not> py_eq (cg_component_id ((b # g) ! Suc k)) c" by blast
        then show "\<not> py_eq (cg_component_id (g ! k)) c" by simp
      qed
    qed
    with b Suc show ?thesis by simp
  qed
qed

lemma example_grouped_ids:
  "map cg_component_id (grouped example_joined_data) = [JNull, JInt 5]"
  by (simp add: grouped_def example_joined_data_def example_joined_def example_component_def
      group_assessment_def group_component_def append_assessment_def summary_of_def Let_def)

lemma example_grouped_sizes:
  "map (\<lambda>b. length (cg_assessments b)) (grouped example_joined_data) = [3, 2]"
  by (simp add: grouped_def example_joined_data_def example_joined_def example_component_def
      group_assessment_def group_component_def append_assessment_def summary_of_def Let_def)

text \<open>
  Claim C10. No group's \<^verbatim>\<open>component_id\<close> equals (\<^verbatim>\<open>==\<close>) that of a later group, so
  the ids of the groups are distinct (for ids that are not lists or dictionaries,
  equal to themselves, this is distinctness of the values). A group is found by the
  equality of its id with the component's, \<^verbatim>\<open>None\<close> included: a component whose id is
  \<^verbatim>\<open>None\<close> is appended to the group whose id is \<^verbatim>\<open>None\<close>, and no group is added.
  The synthetic group of a record without components has the id \<^verbatim>\<open>None\<close>.
\<close>

theorem grouped_component_ids_distinct:
  "(\<forall>i j. i < j \<and> j < length (grouped joined) \<longrightarrow>
      \<not> py_eq (cg_component_id (grouped joined ! i)) (cg_component_id (grouped joined ! j)))
   \<and> ((\<forall>b \<in> set (grouped joined). hashable (cg_component_id b)) \<longrightarrow>
        distinct (map cg_component_id (grouped joined)))
   \<and> (i < length g \<and> cg_component_id (g ! i) = JNull
        \<and> (\<forall>k<i. cg_component_id (g ! k) \<noteq> JNull) \<and> dc_component_id c = JNull \<longrightarrow>
        group_component a g c
          = append_assessment g i (summary_of a (dc_rating_value c) (dc_rating_title c))
        \<and> length (group_component a g c) = length g)
   \<and> (jr_components a = [] \<longrightarrow> map cg_component_id (group_assessment [] a) = [JNull])"
proof (intro conjI)
  let ?ids = "map cg_component_id (grouped joined)"
  have d: "sorted_wrt (\<lambda>x y. \<not> py_eq x y) ?ids" by (rule distinct_grouped)
  show "\<forall>i j. i < j \<and> j < length (grouped joined) \<longrightarrow>
      \<not> py_eq (cg_component_id (grouped joined ! i)) (cg_component_id (grouped joined ! j))"
  proof (intro allI impI)
    fix i j assume ij: "i < j \<and> j < length (grouped joined)"
    then have "i < j" "j < length ?ids" by simp_all
    with d have "\<not> py_eq (?ids ! i) (?ids ! j)"
      by (simp add: sorted_wrt_iff_nth_less)
    with ij show "\<not> py_eq (cg_component_id (grouped joined ! i))
        (cg_component_id (grouped joined ! j))" by simp
  qed
  show "(\<forall>b \<in> set (grouped joined). hashable (cg_component_id b)) \<longrightarrow> distinct ?ids"
  proof
    assume h: "\<forall>b \<in> set (grouped joined). hashable (cg_component_id b)"
    show "distinct ?ids"
      unfolding distinct_conv_nth
    proof (intro allI impI)
      fix i j assume i: "i < length ?ids" and j: "j < length ?ids" and ne: "i \<noteq> j"
      have r: "py_eq (?ids ! k) (?ids ! k)" if "k < length ?ids" for k
        using h that by (simp add: py_eq_refl_hashable)
      from ne consider "i < j" | "j < i" by linarith
      then show "?ids ! i \<noteq> ?ids ! j"
      proof cases
        case 1
        with d j have "\<not> py_eq (?ids ! i) (?ids ! j)" by (simp add: sorted_wrt_iff_nth_less)
        with r[OF i] show ?thesis by auto
      next
        case 2
        with d i have "\<not> py_eq (?ids ! j) (?ids ! i)" by (simp add: sorted_wrt_iff_nth_less)
        with r[OF j] show ?thesis by auto
      qed
    qed
  qed
  show "i < length g \<and> cg_component_id (g ! i) = JNull
        \<and> (\<forall>k<i. cg_component_id (g ! k) \<noteq> JNull) \<and> dc_component_id c = JNull \<longrightarrow>
        group_component a g c
          = append_assessment g i (summary_of a (dc_rating_value c) (dc_rating_title c))
        \<and> length (group_component a g c) = length g"
  proof
    assume h: "i < length g \<and> cg_component_id (g ! i) = JNull
        \<and> (\<forall>k<i. cg_component_id (g ! k) \<noteq> JNull) \<and> dc_component_id c = JNull"
    then have "find_group g JNull = Some i"
      by (intro find_group_eq_Some) (simp_all add: py_eq_JNull)
    with h show "group_component a g c
          = append_assessment g i (summary_of a (dc_rating_value c) (dc_rating_title c))
        \<and> length (group_component a g c) = length g"
      by (simp add: group_component_def Let_def length_append_assessment)
  qed
  show "jr_components a = [] \<longrightarrow> map cg_component_id (group_assessment [] a) = [JNull]"
    by (simp add: group_assessment_def Let_def)
qed

theorem grouped_component_ids_distinct_witness:
  "map cg_component_id (grouped example_joined_data) = [JNull, JInt 5]
   \<and> map (\<lambda>b. length (cg_assessments b)) (grouped example_joined_data) = [3, 2]
   \<and> \<not> py_eq (cg_component_id (grouped example_joined_data ! 0))
          (cg_component_id (grouped example_joined_data ! 1))"
proof -
  have l: "length (grouped example_joined_data) = 2"
    using arg_cong[OF example_grouped_ids, of length] by simp
  have "\<not> py_eq (cg_component_id (grouped example_joined_data ! 0))
          (cg_component_id (grouped example_joined_data ! 1))"
    using grouped_component_ids_distinct[of example_joined_data, THEN conjunct1,
        rule_format, of 0 1] l by simp
  with example_grouped_ids example_grouped_sizes show ?thesis by blast
qed

section \<open>The status joiner on well-formed records\<close>

lemma py_get_field_or: "is_object d \<Longrightarrow> py_get d k dflt = Inr (field_or d k dflt)"
  by (cases d) (simp_all add: is_object_def field_or_def py_get_def split: option.splits)

lemma field_or_JNull: "field_or d k JNull = field_of d k"
  by (simp add: field_or_def field_of_def)

lemma inline_get_field:
  assumes "is_object status" "object_or_falsy (field_of status ''country_details'')"
  shows "inline_get (field_or status ''country_details'' (JObj [])) k
           = Inr (field_of (field_of status ''country_details'') k)"
proof -
  obtain kvs where s: "status = JObj kvs" using assms(1) by (cases status) (simp_all add: is_object_def)
  show ?thesis
  proof (cases "map_of kvs ''country_details''")
    case None
    then show ?thesis by (simp add: s field_or_def field_of_def inline_get_def)
  next
    case (Some cd)
    with assms(2) s have o: "is_object cd \<or> \<not> truthy cd"
      by (simp add: object_or_falsy_def field_of_def)
    show ?thesis
    proof (cases "truthy cd")
      case True
      with o have "is_object cd" by simp
      with True Some show ?thesis
        by (simp add: s field_or_def field_of_def inline_get_def py_get_field_or
            field_or_JNull[symmetric] del: field_or_JNull)
    next
      case False
      then have "field_of cd k = JNull"
        by (cases cd) (simp_all add: field_of_def)
      with False Some show ?thesis
        by (simp add: s field_or_def field_of_def inline_get_def)
    qed
  qed
qed

lemma dict_find_hashable: "hashable k \<Longrightarrow> dict_find d k = Inr (dict_lookup d k)"
  by (simp add: dict_find_def)

lemma dict_get_hashable:
  "hashable k \<Longrightarrow> dict_get d k dflt
     = Inr (case dict_lookup d k of None \<Rightarrow> dflt | Some v \<Rightarrow> v)"
  by (simp add: dict_get_def dict_find_hashable)

lemma coordinate_list:
  "coordinate (JList xs) i = Inr (if i < length xs then xs ! i else JNull)"
  by (simp add: coordinate_def py_len_def py_item_def)

lemma read_coordinates:
  assumes "object_or_falsy c0" "list_field_ok c0 ''coordinates''"
  shows "(if truthy (py_or c0 (JObj []))
          then py_get (py_or c0 (JObj [])) ''coordinates'' (JList [JNull, JNull])
          else Inr (JList [JNull, JNull]))
         = Inr (JList (coordinates_of (py_or c0 (JObj []))))"
proof (cases "truthy c0")
  case False
  then show ?thesis
    by (simp add: py_or_def coordinates_of_def has_key_def)
next
  case True
  with assms(1) obtain kvs where c: "c0 = JObj kvs"
    by (cases c0) (simp_all add: object_or_falsy_def is_object_def)
  show ?thesis
  proof (cases "map_of kvs ''coordinates''")
    case None
    with True show ?thesis
      by (simp add: c py_or_def coordinates_of_def has_key_def py_get_def)
  next
    case (Some v)
    with assms(2) obtain xs where "v = JList xs"
      by (cases v) (simp_all add: c list_field_ok_def has_key_def field_of_def)
    with Some True show ?thesis
      by (simp add: c py_or_def coordinates_of_def has_key_def py_get_def list_field_def
          field_of_def)
  qed
qed


lemma if_Inr_py_or: "(if truthy a then Inr a else Inr b) = Inr (py_or a b)"
  by (simp add: py_or_def)

lemma field_or_truthy: "truthy (field_of d k) \<Longrightarrow> field_or d k x = field_of d k"
  by (cases d) (auto simp: field_or_def field_of_def split: option.splits)

lemma field_of_falsy: "\<not> is_object d \<or> \<not> truthy d \<Longrightarrow> field_of d k = JNull"
  by (cases d) (auto simp: field_of_def is_object_def)

lemma read_details_name:
  assumes "is_object status" "object_or_falsy (field_of status k)"
  shows "(if truthy (field_of status k)
          then and_then (py_get status k (JObj [])) (\<lambda>d. py_get d ''name'' JNull)
          else Inr JNull)
         = Inr (field_of (field_of status k) ''name'')"
proof (cases "truthy (field_of status k)")
  case True
  with assms(2) have o: "is_object (field_of status k)" by (simp add: object_or_falsy_def)
  from True show ?thesis
    by (simp add: py_get_field_or[OF assms(1)] field_or_truthy py_get_field_or[OF o]
        field_or_JNull)
next
  case False
  then show ?thesis by (simp add: field_of_falsy)
qed

lemma hashable_py_or: "hashable a \<Longrightarrow> hashable b \<Longrightarrow> hashable (py_or a b)"
  by (simp add: py_or_def)

lemma country_data_ok:
  assumes "\<forall>e \<in> snd ` set cm. country_entry_ok e"
  shows "hashable (country_data_get (dict_lookup cm k) ce_region)
       \<and> object_or_falsy (country_data_get (dict_lookup cm k) ce_centroid)
       \<and> list_field_ok (country_data_get (dict_lookup cm k) ce_centroid) ''coordinates''"
proof (cases "dict_lookup cm k")
  case None
  then show ?thesis
    by (simp add: country_data_get_def hashable_def object_or_falsy_def list_field_ok_def
        has_key_def)
next
  case (Some e)
  have "dict_lookup d k = Some e \<Longrightarrow> e \<in> snd ` set d" for d :: "(json \<times> country_entry) list"
    by (induction d) (auto split: if_splits)
  with Some assms have "country_entry_ok e" by blast
  with Some show ?thesis by (simp add: country_data_get_def country_entry_ok_def)
qed

lemma join_status_ok:
  assumes ok: "status_ok status" and cm: "\<forall>e \<in> snd ` set cm. country_entry_ok e"
  shows "join_status cm pm das acm om status =
    Inr \<lparr> jr_id = field_of status ''id'',
          jr_assessment_number = field_of status ''assessment_number'',
          jr_date_of_assessment = field_of status ''date_of_assessment'',
          jr_country_id = field_of status ''country'',
          jr_country_name =
            py_or (field_of (field_of status ''country_details'') ''name'')
              (country_data_get
                 (dict_lookup cm (field_of (field_of status ''country_details'') ''iso3''))
                 ce_name),
          jr_phase = field_of status ''phase'',
          jr_phase_display = remap_phase_display (field_or status ''phase_display'' (JStr [])),
          jr_type_of_assessment = field_of status ''type_of_assessment'',
          jr_type_of_assessment_name =
            field_of (field_of status ''type_of_assessment_details'') ''name'',
          jr_country_iso3 =
            py_or (field_of (field_of status ''country_details'') ''iso3'')
              (country_data_get
                 (dict_lookup cm (field_of (field_of status ''country_details'') ''iso3''))
                 ce_iso3),
          jr_region_id =
            py_or (country_data_get
                 (dict_lookup cm (field_of (field_of status ''country_details'') ''iso3''))
                 ce_region)
              (field_of (field_of status ''country_details'') ''region''),
          jr_region_name =
            (case dict_lookup region_id_to_name_map
               (py_or (country_data_get
                 (dict_lookup cm (field_of (field_of status ''country_details'') ''iso3''))
                 ce_region)
              (field_of (field_of status ''country_details'') ''region'')) of
               None \<Rightarrow> JNull | Some n \<Rightarrow> n),
          jr_latitude =
            (let xs = coordinates_of (py_or (country_data_get
                 (dict_lookup cm (field_of (field_of status ''country_details'') ''iso3''))
                 ce_centroid) (JObj []))
             in if 1 < length xs then xs ! 1 else JNull),
          jr_longitude =
            (let xs = coordinates_of (py_or (country_data_get
                 (dict_lookup cm (field_of (field_of status ''country_details'') ''iso3''))
                 ce_centroid) (JObj []))
             in if 0 < length xs then xs ! 0 else JNull),
          jr_updated_at = field_of status ''updated_at'',
          jr_prioritized_components =
            (case dict_lookup pm (field_of status ''id'') of None \<Rightarrow> [] | Some v \<Rightarrow> v),
          jr_epi_considerations =
            co_epi_considerations
              (case dict_lookup acm (field_of status ''assessment'') of
                 None \<Rightarrow> no_considerations | Some v \<Rightarrow> v),
          jr_climate_environmental_considerations =
            co_climate_environmental_considerations
              (case dict_lookup acm (field_of status ''assessment'') of
                 None \<Rightarrow> no_considerations | Some v \<Rightarrow> v),
          jr_urban_considerations =
            co_urban_considerations
              (case dict_lookup acm (field_of status ''assessment'') of
                 None \<Rightarrow> no_considerations | Some v \<Rightarrow> v),
          jr_migration_considerations =
            co_migration_considerations
              (case dict_lookup acm (field_of status ''assessment'') of
                 None \<Rightarrow> no_considerations | Some v \<Rightarrow> v),
          jr_assess_preparedness_of_country =
            ov_assess_preparedness_of_country
              (case dict_lookup om (field_of status ''id'') of
                 None \<Rightarrow> no_overview | Some v \<Rightarrow> v),
          jr_assess_urban_aspect_of_country =
            ov_assess_urban_aspect_of_country
              (case dict_lookup om (field_of status ''id'') of
                 None \<Rightarrow> no_overview | Some v \<Rightarrow> v),
          jr_assess_climate_environment_of_country =
            ov_assess_climate_environment_of_country
              (case dict_lookup om (field_of status ''id'') of
                 None \<Rightarrow> no_overview | Some v \<Rightarrow> v),
          jr_assess_migration_aspect_of_country =
            ov_assess_migration_aspect_of_country
              (case dict_lookup om (field_of status ''id'') of
                 None \<Rightarrow> no_overview | Some v \<Rightarrow> v),
          jr_components = find_dashboard_components das (field_of status ''assessment'') \<rparr>"
proof -
  let ?cd = "field_of status ''country_details''"
  let ?cdata = "dict_lookup cm (field_of ?cd ''iso3'')"
  from ok have key: "has_key status ''id''" and hid: "hashable (field_of status ''id'')"
    and ocd: "object_or_falsy ?cd" and hiso: "hashable (field_of ?cd ''iso3'')"
    and hreg: "hashable (field_of ?cd ''region'')"
    and hass: "hashable (field_of status ''assessment'')"
    and otad: "object_or_falsy (field_of status ''type_of_assessment_details'')"
    by (simp_all add: status_ok_def)
  have obj: "is_object status" using key by (rule has_key_is_object)
  note g = py_get_field_or[OF obj]
  note gi = py_getitem_field[OF key]
  note inl = inline_get_field[OF obj ocd]
  from country_data_ok[OF cm, of "field_of ?cd ''iso3''"]
  have hcr: "hashable (country_data_get ?cdata ce_region)"
    and occ: "object_or_falsy (country_data_get ?cdata ce_centroid)"
    and lcc: "list_field_ok (country_data_get ?cdata ce_centroid) ''coordinates''"
    by simp_all
  note rc = read_coordinates[OF occ lcc]
  note tn = read_details_name[OF obj otad]
  have hr: "hashable (py_or (country_data_get ?cdata ce_region) (field_of ?cd ''region''))"
    using hcr hreg by (rule hashable_py_or)
  have reg: "(if truthy (country_data_get ?cdata ce_region)
              then Inr (country_data_get ?cdata ce_region)
              else inline_get (field_or status ''country_details'' (JObj [])) ''region'')
             = Inr (py_or (country_data_get ?cdata ce_region) (field_of ?cd ''region''))"
    by (simp add: inl py_or_def)
  show ?thesis
    unfolding join_status_def
    by (simp add: g gi inl dict_find_hashable[OF hiso] reg
        dict_get_hashable[OF hid] dict_get_hashable[OF hass] dict_get_hashable[OF hr]
        field_or_JNull rc tn coordinate_list Let_def split del: if_split)
       (simp cong: if_cong)
qed

section \<open>One joined record per status record\<close>

lemma example_statuses_ok:
  "status_ok example_status_unmatched" "status_ok example_status_kenya"
  "status_ok example_status_peru"
  by (simp_all add: status_ok_def example_status_unmatched_def example_status_kenya_def
      example_status_peru_def has_key_def field_of_def hashable_def object_or_falsy_def
      is_object_def)

lemma example_country_map_ok: "\<forall>e \<in> snd ` set example_country_map. country_entry_ok e"
  by (simp add: example_country_map_def country_entry_ok_def hashable_def
      object_or_falsy_def is_object_def list_field_ok_def has_key_def field_of_def)

text \<open>
  Claim C1. For every Status collection the joiner returns one Joined Record per Status
  Record, in the order of the input: the list has the length of the input and the
  record at position \<open>i\<close> is the join of the status at position \<open>i\<close>. Nothing is
  asked of the lookups, so a status whose assessment, country, prioritization or
  overview has no match is joined as well.
\<close>

theorem joiner_emits_one_record_per_status:
  assumes "py_getitem per_status_data ''results'' = Inr (JList statuses)"
    and "\<forall>s \<in> set statuses. status_ok s"
    and "\<forall>e \<in> snd ` set cm. country_entry_ok e"
  shows "\<exists>joined. joined_data cm pm das acm om per_status_data = Inr joined \<and>
           length joined = length statuses \<and>
           (\<forall>i < length statuses.
              join_status cm pm das acm om (statuses ! i) = Inr (joined ! i) \<and>
              jr_id (joined ! i) = field_of (statuses ! i) ''id'')"
proof -
  have "\<forall>s \<in> set statuses. \<exists>j. join_status cm pm das acm om s = Inr j"
    using assms(2) join_status_ok[OF _ assms(3)] by blast
  then obtain joined where
    j: "for_each (join_status cm pm das acm om) statuses = Inr joined"
    using for_each_total by blast
  have jd: "joined_data cm pm das acm om per_status_data = Inr joined"
    by (simp add: joined_data_def assms(1) py_iter_def j)
  have "join_status cm pm das acm om (statuses ! i) = Inr (joined ! i) \<and>
        jr_id (joined ! i) = field_of (statuses ! i) ''id''" if i: "i < length statuses" for i
  proof -
    have e: "join_status cm pm das acm om (statuses ! i) = Inr (joined ! i)"
      using for_each_nth[OF j i] .
    have "status_ok (statuses ! i)" using assms(2) i by simp
    from join_status_ok[OF this assms(3), of pm das acm om] e
    have "jr_id (joined ! i) = field_of (statuses ! i) ''id''" by simp
    with e show ?thesis by simp
  qed
  with jd for_each_length[OF j] show ?thesis by blast
qed

theorem joiner_emits_one_record_per_status_witness:
  "\<exists>joined. joined_data example_country_map [] [] [] example_overview_map
       example_status_data = Inr joined \<and>
     length joined = 3 \<and> jr_id (joined ! 0) = JInt 1 \<and> jr_id (joined ! 1) = JInt 2 \<and>
     jr_id (joined ! 2) = JInt 3"
proof -
  let ?statuses = "[example_status_unmatched, example_status_kenya, example_status_peru]"
  have r: "py_getitem example_status_data ''results'' = Inr (JList ?statuses)"
    by (simp add: example_status_data_def py_getitem_def)
  have ok: "\<forall>s \<in> set ?statuses. status_ok s"
    using example_statuses_ok by simp
  from joiner_emits_one_record_per_status[OF r ok example_country_map_ok,
      of "[]" "[]" "[]" example_overview_map]
  obtain joined where
    j: "joined_data example_country_map [] [] [] example_overview_map example_status_data
          = Inr joined" "length joined = 3"
       "\<forall>i < length ?statuses.
          join_status example_country_map [] [] [] example_overview_map (?statuses ! i)
            = Inr (joined ! i) \<and>
          jr_id (joined ! i) = field_of (?statuses ! i) ''id''"
    by auto
  have i0: "jr_id (joined ! 0) = JInt 1"
    using j(3)[rule_format, of 0] by (simp add: example_status_unmatched_def field_of_def)
  have i1: "jr_id (joined ! 1) = JInt 2"
    using j(3)[rule_format, of 1] by (simp add: example_status_kenya_def field_of_def)
  have i2: "jr_id (joined ! 2) = JInt 3"
    using j(3)[rule_format, of 2] by (simp add: example_status_peru_def field_of_def)
  from j(1,2) i0 i1 i2 show ?thesis by blast
qed

section \<open>The pipeline and its stages\<close>

lemma example_country_map_built: "country_map example_countries_data = Inr example_country_map"
  by (simp add: country_map_def example_countries_data_def example_country_map_def
      py_getitem_def py_iter_def dict_comprehension_def country_item_def py_get_def
      dict_set_def hashable_def)

lemma example_overview_map_built:
  "overview_map (read_overview (Some example_overview_data)) = Inr example_overview_map"
  by (simp add: overview_map_def read_overview_def example_overview_data_def
      example_overview_map_def py_getitem_def py_iter_def dict_comprehension_def
      overview_item_def py_get_def dict_set_def hashable_def)

lemma example_empty_lookups:
  "prioritization_map example_empty_data = Inr []"
  "component_descriptions example_empty_data = Inr []"
  "process_assessments example_empty_data = Inr []"
  "dashboard_assessments example_empty_data = Inr []"
  "assessment_considerations_map [] = Inr []"
  "results_len example_empty_data = Inr 0"
  by (simp_all add: example_empty_data_def prioritization_map_def component_descriptions_def
      process_assessments_def dashboard_assessments_def assessment_considerations_map_def
      results_len_def py_getitem_def py_iter_def py_len_def)

lemma process_data_stages:
  assumes "process_data per_status_data countries_data prioritization_data assessments
             per_overview_file = Inr out"
  shows "\<exists>cm pm das acm om processed.
           overview_map (read_overview per_overview_file) = Inr om \<and>
           country_map countries_data = Inr cm \<and>
           prioritization_map prioritization_data = Inr pm \<and>
           process_assessments assessments = Inr processed \<and>
           out_processed_assessments out = processed \<and>
           dashboard_assessments assessments = Inr das \<and>
           assessment_considerations_map processed = Inr acm \<and>
           joined_data cm pm das acm om per_status_data = Inr (out_map_data out) \<and>
           out_assessments out = grouped (out_map_data out) \<and>
           country_assessments (out_map_data out) = Inr (out_countryAssessments out)"
  using assms
  by (auto simp: process_data_def and_then_def Let_def split: sum.splits)

lemma overview_map_absent: "overview_map (read_overview None) = Inr []"
  by (simp add: read_overview_def overview_map_def py_getitem_def py_iter_def
      dict_comprehension_def)

lemma example_results_len:
  "results_len example_status_data = Inr 3" "results_len example_countries_data = Inr 2"
  "results_len (read_overview None) = Inr 0"
  by (simp_all add: results_len_def example_status_data_def example_countries_data_def
      read_overview_def py_getitem_def py_len_def)

lemma example_join_fields:
  "\<exists>j. join_status example_country_map [] [] [] [] example_status_unmatched = Inr j \<and>
     jr_region_id j = JNull \<and> jr_region_name j = JNull \<and> jr_country_name j = JNull \<and>
     jr_date_of_assessment j = JNull \<and> jr_components j = []"
  "\<exists>j. join_status example_country_map [] [] [] [] example_status_kenya = Inr j \<and>
     jr_region_id j = JNull \<and> jr_region_name j = JNull \<and>
     jr_country_name j = JStr ''Kenya'' \<and>
     jr_date_of_assessment j = JNull \<and> jr_components j = []"
  "\<exists>j. join_status example_country_map [] [] [] [] example_status_peru = Inr j \<and>
     jr_region_id j = JInt 1 \<and> jr_region_name j = JStr ''Americas'' \<and>
     jr_country_name j = JStr ''Peru (inline)'' \<and>
     jr_date_of_assessment j = JNull \<and> jr_components j = []"
  unfolding join_status_ok[OF example_statuses_ok(1) example_country_map_ok]
    join_status_ok[OF example_statuses_ok(2) example_country_map_ok]
    join_status_ok[OF example_statuses_ok(3) example_country_map_ok]
  by (simp_all add: example_status_unmatched_def example_status_kenya_def
      example_status_peru_def example_country_map_def field_of_def py_or_def
      country_data_get_def region_id_to_name_map_def find_dashboard_components_def)

lemma example_joined_regions:
  "\<exists>joined. joined_data example_country_map [] [] [] [] example_status_data = Inr joined \<and>
     map jr_region_id joined = [JNull, JNull, JInt 1] \<and>
     map jr_region_name joined = [JNull, JNull, JStr ''Americas''] \<and>
     map jr_country_name joined = [JNull, JStr ''Kenya'', JStr ''Peru (inline)''] \<and>
     map jr_date_of_assessment joined = [JNull, JNull, JNull]"
proof -
  from example_join_fields(1) obtain j1 where
    j1: "join_status example_country_map [] [] [] [] example_status_unmatched = Inr j1"
      "jr_region_id j1 = JNull" "jr_region_name j1 = JNull" "jr_country_name j1 = JNull"
      "jr_date_of_assessment j1 = JNull"
    by auto
  from example_join_fields(2) obtain j2 where
    j2: "join_status example_country_map [] [] [] [] example_status_kenya = Inr j2"
      "jr_region_id j2 = JNull" "jr_region_name j2 = JNull"
      "jr_country_name j2 = JStr ''Kenya''" "jr_date_of_assessment j2 = JNull"
    by auto
  from example_join_fields(3) obtain j3 where
    j3: "join_status example_country_map [] [] [] [] example_status_peru = Inr j3"
      "jr_region_id j3 = JInt 1" "jr_region_name j3 = JStr ''Americas''"
      "jr_country_name j3 = JStr ''Peru (inline)''" "jr_date_of_assessment j3 = JNull"
    by auto
  have "joined_data example_country_map [] [] [] [] example_status_data = Inr [j1, j2, j3]"
    unfolding joined_data_def example_status_data_def
    by (simp add: py_getitem_def py_iter_def j1(1) j2(1) j3(1))
  with j1 j2 j3 show ?thesis by (intro exI[of _ "[j1, j2, j3]"]) simp
qed

lemma example_history_total:
  assumes "map jr_country_name joined = [JNull, JStr ''Kenya'', JStr ''Peru (inline)'']"
    and "map jr_date_of_assessment joined = [JNull, JNull, JNull]"
  shows "\<exists>history. country_assessments joined = Inr history"
proof -
  from assms obtain j1 j2 j3 where j: "joined = [j1, j2, j3]"
    "jr_country_name j1 = JNull" "jr_country_name j2 = JStr ''Kenya''"
    "jr_country_name j3 = JStr ''Peru (inline)''"
    "jr_date_of_assessment j1 = JNull" "jr_date_of_assessment j2 = JNull"
    "jr_date_of_assessment j3 = JNull"
    by (auto simp: map_eq_Cons_conv)
  show ?thesis
    by (simp add: j country_assessments_def add_country_assessment_def dict_find_def
        hashable_def sort_country_def sort_by_date_def Let_def)
qed

lemma example_pipeline_regions:
  "\<exists>out. process_data example_status_data example_countries_data example_empty_data
       example_empty_data None = Inr out \<and>
     map jr_region_id (out_map_data out) = [JNull, JNull, JInt 1] \<and>
     map jr_region_name (out_map_data out) = [JNull, JNull, JStr ''Americas'']"
proof -
  from example_joined_regions obtain joined where
    j: "joined_data example_country_map [] [] [] [] example_status_data = Inr joined"
       "map jr_region_id joined = [JNull, JNull, JInt 1]"
       "map jr_region_name joined = [JNull, JNull, JStr ''Americas'']"
       "map jr_country_name joined = [JNull, JStr ''Kenya'', JStr ''Peru (inline)'']"
       "map jr_date_of_assessment joined = [JNull, JNull, JNull]"
    by auto
  from example_history_total[OF j(4,5)] obtain history where
    h: "country_assessments joined = Inr history" by auto
  have "process_data example_status_data example_countries_data example_empty_data
       example_empty_data None =
     Inr \<lparr> out_map_data = joined, out_component_descriptions = [],
           out_processed_assessments = [], out_assessments = grouped joined,
           out_countryAssessments = history \<rparr>"
    by (simp add: process_data_def example_results_len example_empty_lookups
        overview_map_absent example_country_map_built j(1) h)
  with j(2,3) show ?thesis by simp
qed

section \<open>The country fields of a joined record\<close>

lemma example_join_peru:
  "map_sum id jr_region_id
     (join_status example_country_map [] [] [] example_overview_map example_status_peru)
     = Inr (JInt 1)"
  "map_sum id jr_latitude
     (join_status example_country_map [] [] [] example_overview_map example_status_peru)
     = Inr (JInt (-10))"
  "map_sum id jr_longitude
     (join_status example_country_map [] [] [] example_overview_map example_status_peru)
     = Inr (JInt (-75))"
  "map_sum id jr_country_name
     (join_status example_country_map [] [] [] example_overview_map example_status_peru)
     = Inr (JStr ''Peru (inline)'')"
  unfolding join_status_ok[OF example_statuses_ok(3) example_country_map_ok]
  by (simp_all add: example_status_peru_def example_country_map_def field_of_def py_or_def
      country_data_get_def coordinates_of_def has_key_def list_field_def)

lemma example_join_kenya:
  "map_sum id jr_region_id
     (join_status example_country_map [] [] [] example_overview_map example_status_kenya)
     = Inr JNull"
  "map_sum id jr_region_name
     (join_status example_country_map [] [] [] example_overview_map example_status_kenya)
     = Inr JNull"
  "map_sum id jr_latitude
     (join_status example_country_map [] [] [] example_overview_map example_status_kenya)
     = Inr JNull"
  "map_sum id jr_longitude
     (join_status example_country_map [] [] [] example_overview_map example_status_kenya)
     = Inr (JInt 38)"
  unfolding join_status_ok[OF example_statuses_ok(2) example_country_map_ok]
  by (simp_all add: example_status_kenya_def example_country_map_def field_of_def py_or_def
      country_data_get_def coordinates_of_def has_key_def list_field_def
      region_id_to_name_map_def)

text \<open>
  Claim C4, as amended. The name and the ISO3 code of a joined record are the inline
  \<^verbatim>\<open>country_details\<close> values when these are truthy (given, not null and not empty)
  and the values of the country lookup otherwise. The region is the region of the
  country lookup when the lookup carries a truthy one (a code from 1 to 4), whatever
  the inline region, and the inline region when the lookup carries none (no entry, or
  a region left out or null); a lookup region of 0 is not covered here. Latitude and
  longitude are split from the centroid of the country lookup; an inline centroid is
  not read.
\<close>

theorem country_fields_resolution:
  assumes "status_ok status" and "\<forall>e \<in> snd ` set cm. country_entry_ok e"
  shows "\<exists>j. join_status cm pm das acm om status = Inr j \<and>
     jr_country_name j =
       py_or (field_of (field_of status ''country_details'') ''name'')
         (country_data_get
            (dict_lookup cm (field_of (field_of status ''country_details'') ''iso3''))
            ce_name) \<and>
     jr_country_iso3 j =
       py_or (field_of (field_of status ''country_details'') ''iso3'')
         (country_data_get
            (dict_lookup cm (field_of (field_of status ''country_details'') ''iso3''))
            ce_iso3) \<and>
     (truthy (country_data_get
            (dict_lookup cm (field_of (field_of status ''country_details'') ''iso3''))
            ce_region) \<longrightarrow>
        jr_region_id j =
          country_data_get
            (dict_lookup cm (field_of (field_of status ''country_details'') ''iso3''))
            ce_region) \<and>
     (country_data_get
            (dict_lookup cm (field_of (field_of status ''country_details'') ''iso3''))
            ce_region = JNull \<longrightarrow>
        jr_region_id j = field_of (field_of status ''country_details'') ''region'') \<and>
     jr_latitude j =
       (let xs = coordinates_of (py_or (country_data_get
            (dict_lookup cm (field_of (field_of status ''country_details'') ''iso3''))
            ce_centroid) (JObj []))
        in if 1 < length xs then xs ! 1 else JNull) \<and>
     jr_longitude j =
       (let xs = coordinates_of (py_or (country_data_get
            (dict_lookup cm (field_of (field_of status ''country_details'') ''iso3''))
            ce_centroid) (JObj []))
        in if 0 < length xs then xs ! 0 else JNull)"
  unfolding join_status_ok[OF assms] by (simp add: py_or_def)

theorem country_fields_resolution_witness:
  "(\<exists>j. join_status example_country_map [] [] [] example_overview_map example_status_peru
        = Inr j \<and>
     jr_country_name j = JStr ''Peru (inline)'' \<and> jr_country_iso3 j = JStr ''PER'' \<and>
     jr_region_id j = JInt 1 \<and> jr_latitude j = JInt (-10) \<and> jr_longitude j = JInt (-75))
   \<and>
   (\<exists>j. join_status example_country_map [] [] [] example_overview_map
        example_status_inline_only = Inr j \<and>
     jr_country_name j = JStr ''Atlantis'' \<and> jr_country_iso3 j = JStr ''XXX'' \<and>
     jr_region_id j = JInt 3 \<and> jr_latitude j = JNull \<and> jr_longitude j = JNull)"
proof
  show "\<exists>j. join_status example_country_map [] [] [] example_overview_map
        example_status_peru = Inr j \<and>
     jr_country_name j = JStr ''Peru (inline)'' \<and> jr_country_iso3 j = JStr ''PER'' \<and>
     jr_region_id j = JInt 1 \<and> jr_latitude j = JInt (-10) \<and> jr_longitude j = JInt (-75)"
    using country_fields_resolution[OF example_statuses_ok(3) example_country_map_ok,
        of "[]" "[]" "[]" example_overview_map]
    by (simp add: example_status_peru_def example_country_map_def field_of_def py_or_def
        country_data_get_def coordinates_of_def has_key_def list_field_def)
next
  have ok: "status_ok example_status_inline_only"
    by (simp add: status_ok_def example_status_inline_only_def has_key_def field_of_def
        hashable_def object_or_falsy_def is_object_def)
  show "\<exists>j. join_status example_country_map [] [] [] example_overview_map
        example_status_inline_only = Inr j \<and>
     jr_country_name j = JStr ''Atlantis'' \<and> jr_country_iso3 j = JStr ''XXX'' \<and>
     jr_region_id j = JInt 3 \<and> jr_latitude j = JNull \<and> jr_longitude j = JNull"
    using country_fields_resolution[OF ok example_country_map_ok,
        of "[]" "[]" "[]" example_overview_map]
    by (simp add: example_status_inline_only_def example_country_map_def field_of_def
        py_or_def country_data_get_def coordinates_of_def has_key_def list_field_def)
qed

text \<open>
  Claim C4 as stated fails: with an inline region 2 and an inline centroid \<open>[1, 2]\<close>,
  and a lookup entry with region 1 and centroid \<open>[-75, -10]\<close>, the joined record has
  the region and the position of the lookup.
\<close>

theorem inline_region_and_centroid_counterexample:
  "field_of (field_of example_status_peru ''country_details'') ''region'' = JInt 2 \<and>
   field_of (field_of example_status_peru ''country_details'') ''centroid''
     = JObj [(''coordinates'', JList [JInt 1, JInt 2])] \<and>
   map_sum id jr_region_id
     (join_status example_country_map [] [] [] example_overview_map example_status_peru)
     = Inr (JInt 1) \<and>
   map_sum id jr_latitude
     (join_status example_country_map [] [] [] example_overview_map example_status_peru)
     = Inr (JInt (-10)) \<and>
   map_sum id jr_longitude
     (join_status example_country_map [] [] [] example_overview_map example_status_peru)
     = Inr (JInt (-75))"
  using example_join_peru by (simp add: example_status_peru_def field_of_def)

text \<open>
  Claim C5 at a country whose lookup entry carries the region 0 (Africa) and a status
  without inline region: the joined record has no region id and no region name, since
  \<^verbatim>\<open>country_data.get('region') or ...\<close> takes 0 for a missing value. The second
  record of the map data of the whole pipeline, run on the example collections, shows
  it.
\<close>

theorem region_zero_falls_through:
  "country_map example_countries_data = Inr example_country_map \<and>
   dict_lookup example_country_map (JStr ''KEN'') =
     Some \<lparr> ce_centroid = JObj [(''coordinates'', JList [JInt 38])], ce_iso3 = JStr ''KEN'',
            ce_region = JInt 0, ce_name = JStr ''Kenya'' \<rparr> \<and>
   map_sum id jr_region_id
     (join_status example_country_map [] [] [] example_overview_map example_status_kenya)
     = Inr JNull \<and>
   map_sum id jr_region_name
     (join_status example_country_map [] [] [] example_overview_map example_status_kenya)
     = Inr JNull \<and>
   (\<exists>out. process_data example_status_data example_countries_data example_empty_data
       example_empty_data None = Inr out \<and>
     map jr_region_id (out_map_data out) = [JNull, JNull, JInt 1] \<and>
     map jr_region_name (out_map_data out) = [JNull, JNull, JStr ''Americas''])"
  using example_join_kenya example_pipeline_regions example_country_map_built
  by (simp add: example_country_map_def)

text \<open>
  Claim C6, as amended. The centroid is the one of the country lookup. When it is
  absent, null or empty, or has no \<^verbatim>\<open>coordinates\<close>, latitude and longitude are both
  null and nothing is raised. When its coordinates are a list, the latitude is
  \<^verbatim>\<open>coordinates[1]\<close> if the list has two elements or more and null otherwise, and the
  longitude is \<^verbatim>\<open>coordinates[0]\<close> if the list is not empty and null otherwise: a list
  of one element gives a longitude and no latitude.
\<close>

theorem centroid_split:
  assumes "status_ok status" and "\<forall>e \<in> snd ` set cm. country_entry_ok e"
    and "centroid = country_data_get
           (dict_lookup cm (field_of (field_of status ''country_details'') ''iso3''))
           ce_centroid"
  shows "\<exists>j. join_status cm pm das acm om status = Inr j \<and>
     (\<not> truthy centroid \<longrightarrow> jr_latitude j = JNull \<and> jr_longitude j = JNull) \<and>
     (truthy centroid \<and> \<not> has_key centroid ''coordinates'' \<longrightarrow>
        jr_latitude j = JNull \<and> jr_longitude j = JNull) \<and>
     (truthy centroid \<and> has_key centroid ''coordinates'' \<longrightarrow>
        jr_latitude j =
          (if 1 < length (list_field centroid ''coordinates'')
           then list_field centroid ''coordinates'' ! 1 else JNull) \<and>
        jr_longitude j =
          (if 0 < length (list_field centroid ''coordinates'')
           then list_field centroid ''coordinates'' ! 0 else JNull))"
  unfolding join_status_ok[OF assms(1,2)] assms(3)[symmetric]
  by (simp add: py_or_def coordinates_of_def has_key_def Let_def)

theorem centroid_split_witness:
  "\<exists>j. join_status example_country_map [] [] [] example_overview_map example_status_peru
        = Inr j \<and> jr_latitude j = JInt (-10) \<and> jr_longitude j = JInt (-75)"
  using centroid_split[OF example_statuses_ok(3) example_country_map_ok refl,
      of "[]" "[]" "[]" example_overview_map]
  by (simp add: example_status_peru_def example_country_map_def field_of_def
      country_data_get_def has_key_def list_field_def)

text \<open>
  Claim C6 as stated fails: coordinates too short for a latitude, \<open>[38]\<close>, still give
  the longitude 38.
\<close>

theorem short_coordinates_counterexample:
  "country_data_get (dict_lookup example_country_map (JStr ''KEN'')) ce_centroid
     = JObj [(''coordinates'', JList [JInt 38])] \<and>
   map_sum id jr_latitude
     (join_status example_country_map [] [] [] example_overview_map example_status_kenya)
     = Inr JNull \<and>
   map_sum id jr_longitude
     (join_status example_country_map [] [] [] example_overview_map example_status_kenya)
     = Inr (JInt 38)"
  using example_join_kenya by (simp add: example_country_map_def country_data_get_def)

text \<open>Coordinates that are null are not covered by the above: \<^verbatim>\<open>len(None)\<close> raises.\<close>

lemma null_coordinates_raise:
  "join_status
     [(JStr ''KEN'',
       \<lparr> ce_centroid = JObj [(''coordinates'', JNull)], ce_iso3 = JStr ''KEN'',
         ce_region = JInt 0, ce_name = JStr ''Kenya'' \<rparr>)]
     [] [] [] [] example_status_kenya = Inl TypeError"
  by (simp add: join_status_def example_status_kenya_def py_get_def py_getitem_def
      inline_get_def dict_find_def dict_get_def hashable_def country_data_get_def py_or_def
      remap_phase_display_def coordinate_def py_len_def region_id_to_name_map_def
      find_dashboard_components_def Let_def)

section \<open>A status without overview record\<close>

lemma keys_dict_store: "fst ` set (dict_store d k v) \<subseteq> insert k (fst ` set d)"
proof (induction d)
  case Nil
  then show ?case by simp
next
  case (Cons a d)
  then show ?case by (cases a) (auto split: if_splits)
qed

lemma dict_lookup_None: "\<forall>k' \<in> fst ` set d. \<not> py_eq k' k \<Longrightarrow> dict_lookup d k = None"
  by (induction d) auto

lemma overview_item_ok:
  assumes "has_key r ''id''"
  shows "\<exists>v. overview_item r = Inr (field_of r ''id'', v)"
  unfolding overview_item_def
  by (simp add: py_getitem_field[OF assms] py_get_field_or[OF has_key_is_object[OF assms]])

lemma overview_fold_keys:
  assumes "\<forall>r \<in> set rs. has_key r ''id'' \<and> hashable (field_of r ''id'')"
  shows "\<exists>om. fold_err (\<lambda>d x. and_then (overview_item x) (\<lambda>kv. dict_set d (fst kv) (snd kv)))
                rs d = Inr om
            \<and> fst ` set om \<subseteq> fst ` set d \<union> (\<lambda>r. field_of r ''id'') ` set rs"
  using assms
proof (induction rs arbitrary: d)
  case Nil
  then show ?case by simp
next
  case (Cons r rs)
  then have k: "has_key r ''id''" and h: "hashable (field_of r ''id'')" by simp_all
  from overview_item_ok[OF k] obtain v where v: "overview_item r = Inr (field_of r ''id'', v)"
    by blast
  let ?d = "dict_store d (field_of r ''id'') v"
  from Cons.IH[of ?d] Cons.prems obtain om where
    om: "fold_err (\<lambda>d x. and_then (overview_item x) (\<lambda>kv. dict_set d (fst kv) (snd kv)))
           rs ?d = Inr om"
        "fst ` set om \<subseteq> fst ` set ?d \<union> (\<lambda>r. field_of r ''id'') ` set rs"
    by auto
  have "fst ` set om \<subseteq> fst ` set d \<union> (\<lambda>r. field_of r ''id'') ` set (r # rs)"
    using om(2) keys_dict_store[of d "field_of r ''id''" v] by auto
  with om(1) v h show ?case by (simp add: dict_set_def)
qed

lemma overview_map_keys:
  assumes "py_getitem data ''results'' = Inr (JList rs)"
    and "\<forall>r \<in> set rs. has_key r ''id'' \<and> hashable (field_of r ''id'')"
  shows "\<exists>om. overview_map data = Inr om
            \<and> fst ` set om \<subseteq> (\<lambda>r. field_of r ''id'') ` set rs"
  using overview_fold_keys[OF assms(2), of "[]"]
  by (simp add: overview_map_def assms(1) py_iter_def dict_comprehension_def)

lemma join_status_overview:
  assumes "status_ok status" and "\<forall>e \<in> snd ` set cm. country_entry_ok e"
  shows "\<exists>j. join_status cm pm das acm om status = Inr j \<and>
     jr_assess_preparedness_of_country j =
       ov_assess_preparedness_of_country
         (case dict_lookup om (field_of status ''id'') of None \<Rightarrow> no_overview | Some v \<Rightarrow> v) \<and>
     jr_assess_urban_aspect_of_country j =
       ov_assess_urban_aspect_of_country
         (case dict_lookup om (field_of status ''id'') of None \<Rightarrow> no_overview | Some v \<Rightarrow> v) \<and>
     jr_assess_climate_environment_of_country j =
       ov_assess_climate_environment_of_country
         (case dict_lookup om (field_of status ''id'') of None \<Rightarrow> no_overview | Some v \<Rightarrow> v) \<and>
     jr_assess_migration_aspect_of_country j =
       ov_assess_migration_aspect_of_country
         (case dict_lookup om (field_of status ''id'') of None \<Rightarrow> no_overview | Some v \<Rightarrow> v)"
  unfolding join_status_ok[OF assms] by simp

text \<open>
  Claim C9. When \<^verbatim>\<open>per-overview.json\<close> is absent the overview lookup is empty and
  nothing is raised. When the overview collection (absent or given) holds no record
  whose id equals the id of a status, the join of that status does not raise and its
  four \<^verbatim>\<open>assess_*_of_country\<close> fields are null.
\<close>

theorem missing_overview_defaults_to_null:
  assumes "status_ok status" and "\<forall>e \<in> snd ` set cm. country_entry_ok e"
    and "py_getitem (read_overview file) ''results'' = Inr (JList rs)"
    and "\<forall>r \<in> set rs. has_key r ''id'' \<and> hashable (field_of r ''id'') \<and>
           \<not> py_eq (field_of r ''id'') (field_of status ''id'')"
  shows "overview_map (read_overview None) = Inr [] \<and>
    (\<exists>om j. overview_map (read_overview file) = Inr om \<and>
       join_status cm pm das acm om status = Inr j \<and>
       jr_assess_preparedness_of_country j = JNull \<and>
       jr_assess_urban_aspect_of_country j = JNull \<and>
       jr_assess_climate_environment_of_country j = JNull \<and>
       jr_assess_migration_aspect_of_country j = JNull)"
proof
  show "overview_map (read_overview None) = Inr []"
    by (simp add: read_overview_def overview_map_def py_getitem_def py_iter_def
        dict_comprehension_def)
next
  from assms(4) have wf: "\<forall>r \<in> set rs. has_key r ''id'' \<and> hashable (field_of r ''id'')"
    by simp
  from overview_map_keys[OF assms(3) wf] obtain om where
    om: "overview_map (read_overview file) = Inr om"
        "fst ` set om \<subseteq> (\<lambda>r. field_of r ''id'') ` set rs"
    by auto
  have "\<forall>k \<in> fst ` set om. \<not> py_eq k (field_of status ''id'')"
  proof
    fix k assume "k \<in> fst ` set om"
    with om(2) obtain r where "r \<in> set rs" "k = field_of r ''id''" by auto
    with assms(4) show "\<not> py_eq k (field_of status ''id'')" by simp
  qed
  then have none: "dict_lookup om (field_of status ''id'') = None"
    by (rule dict_lookup_None)
  from join_status_overview[OF assms(1,2), of pm das acm om] obtain j where
    j: "join_status cm pm das acm om status = Inr j"
       "jr_assess_preparedness_of_country j = JNull"
       "jr_assess_urban_aspect_of_country j = JNull"
       "jr_assess_climate_environment_of_country j = JNull"
       "jr_assess_migration_aspect_of_country j = JNull"
    unfolding none by (auto simp: no_overview_def)
  with om(1) show "\<exists>om j. overview_map (read_overview file) = Inr om \<and>
       join_status cm pm das acm om status = Inr j \<and>
       jr_assess_preparedness_of_country j = JNull \<and>
       jr_assess_urban_aspect_of_country j = JNull \<and>
       jr_assess_climate_environment_of_country j = JNull \<and>
       jr_assess_migration_aspect_of_country j = JNull"
    by (intro exI[of _ om] exI[of _ j]) simp
qed

theorem missing_overview_defaults_to_null_witness:
  "(\<exists>om j. overview_map (read_overview (Some example_overview_data)) = Inr om \<and>
       join_status example_country_map [] [] [] om example_status_unmatched = Inr j \<and>
       jr_assess_preparedness_of_country j = JNull \<and>
       jr_assess_urban_aspect_of_country j = JNull \<and>
       jr_assess_climate_environment_of_country j = JNull \<and>
       jr_assess_migration_aspect_of_country j = JNull) \<and>
   (\<exists>om j. overview_map (read_overview None) = Inr om \<and>
       join_status example_country_map [] [] [] om example_status_kenya = Inr j \<and>
       jr_assess_preparedness_of_country j = JNull \<and>
       jr_assess_urban_aspect_of_country j = JNull \<and>
       jr_assess_climate_environment_of_country j = JNull \<and>
       jr_assess_migration_aspect_of_country j = JNull)"
proof
  have r: "py_getitem (read_overview (Some example_overview_data)) ''results''
      = Inr (JList [JObj [(''id'', JInt 2), (''assess_preparedness_of_country'', JBool True),
                         (''assess_urban_aspect_of_country'', JBool False),
                         (''assess_migration_aspect_of_country'', JBool True)]])"
    by (simp add: read_overview_def example_overview_data_def py_getitem_def)
  show "\<exists>om j. overview_map (read_overview (Some example_overview_data)) = Inr om \<and>
       join_status example_country_map [] [] [] om example_status_unmatched = Inr j \<and>
       jr_assess_preparedness_of_country j = JNull \<and>
       jr_assess_urban_aspect_of_country j = JNull \<and>
       jr_assess_climate_environment_of_country j = JNull \<and>
       jr_assess_migration_aspect_of_country j = JNull"
    by (rule missing_overview_defaults_to_null[OF example_statuses_ok(1)
          example_country_map_ok r, THEN conjunct2])
       (simp add: has_key_def field_of_def hashable_def example_status_unmatched_def)
next
  have r: "py_getitem (read_overview None) ''results'' = Inr (JList [])"
    by (simp add: read_overview_def py_getitem_def)
  show "\<exists>om j. overview_map (read_overview None) = Inr om \<and>
       join_status example_country_map [] [] [] om example_status_kenya = Inr j \<and>
       jr_assess_preparedness_of_country j = JNull \<and>
       jr_assess_urban_aspect_of_country j = JNull \<and>
       jr_assess_climate_environment_of_country j = JNull \<and>
       jr_assess_migration_aspect_of_country j = JNull"
    by (rule missing_overview_defaults_to_null[OF example_statuses_ok(2)
          example_country_map_ok r, THEN conjunct2]) simp
qed

section \<open>The history of each country is sorted by date\<close>

lemma py_eq_hashable: "hashable x \<Longrightarrow> py_eq x y \<Longrightarrow> hashable y"
  by (cases x; cases y) (simp_all add: hashable_def)

lemma py_eq_sym_hashable: "hashable x \<Longrightarrow> py_eq x y \<Longrightarrow> py_eq y x"
  by (cases x; cases y) (auto simp: hashable_def)

lemma py_eq_trans_hashable: "hashable x \<Longrightarrow> py_eq x y \<Longrightarrow> py_eq y z \<Longrightarrow> py_eq x z"
  by (cases x; cases y; cases z) (auto simp: hashable_def)

lemma dict_lookup_None_iff:
  "dict_lookup d k = None \<longleftrightarrow> (\<forall>e \<in> set d. \<not> py_eq (fst e) k)"
proof (induction d)
  case Nil
  then show ?case by simp
next
  case (Cons e d)
  then show ?case by (cases e) (simp split: if_splits)
qed

lemma dict_store_new: "dict_lookup d k = None \<Longrightarrow> dict_store d k v = d @ [(k, v)]"
proof (induction d)
  case Nil
  then show ?case by simp
next
  case (Cons e d)
  then show ?case by (cases e) (auto split: if_splits)
qed

lemma dict_lookup_Some_split:
  "dict_lookup d k = Some x \<Longrightarrow>
     \<exists>d1 k' d2. d = d1 @ (k', x) # d2 \<and> py_eq k' k \<and> (\<forall>e \<in> set d1. \<not> py_eq (fst e) k)
       \<and> (\<forall>v. dict_store d k v = d1 @ (k', v) # d2)"
proof (induction d)
  case Nil
  then show ?case by simp
next
  case (Cons e d)
  obtain k0 v0 where e: "e = (k0, v0)" by (cases e)
  show ?case
  proof (cases "py_eq k0 k")
    case True
    with Cons.prems e have "v0 = x" by simp
    with True e have "e # d = [] @ (k0, x) # d \<and> py_eq k0 k
        \<and> (\<forall>e \<in> set []. \<not> py_eq (fst e) k) \<and> (\<forall>v. dict_store (e # d) k v = [] @ (k0, v) # d)"
      by simp
    then show ?thesis by blast
  next
    case False
    with Cons.prems e have "dict_lookup d k = Some x" by simp
    from Cons.IH[OF this] obtain d1 k' d2 where
      s: "d = d1 @ (k', x) # d2" "py_eq k' k" "\<forall>e \<in> set d1. \<not> py_eq (fst e) k"
         "\<forall>v. dict_store d k v = d1 @ (k', v) # d2"
      by blast
    from s False e have "e # d = (e # d1) @ (k', x) # d2 \<and> py_eq k' k
        \<and> (\<forall>e' \<in> set (e # d1). \<not> py_eq (fst e') k)
        \<and> (\<forall>v. dict_store (e # d) k v = (e # d1) @ (k', v) # d2)"
      by simp
    then show ?thesis by blast
  qed
qed

lemma history_step:
  assumes inv: "history_inv d seen" and h: "hashable (jr_country_name r)"
  shows "\<exists>d'. add_country_assessment d r = Inr d' \<and> history_inv d' (seen @ [r])"
proof -
  let ?n = "jr_country_name"
  let ?k = "jr_country_name r"
  from inv have A: "\<forall>e \<in> set d. hashable (fst e) \<and>
          snd e = map history_of (filter (\<lambda>r. py_eq (fst e) (?n r)) seen)"
    and B: "sorted_wrt (\<lambda>x y. \<not> py_eq x y) (map fst d)"
    and C: "\<forall>r \<in> set seen. \<exists>e \<in> set d. py_eq (fst e) (?n r)"
    by (simp_all add: history_inv_def)
  let ?d' = "dict_store d ?k
      ((case dict_lookup d ?k of None \<Rightarrow> [] | Some xs \<Rightarrow> xs) @ [history_of r])"
  have run: "add_country_assessment d r = Inr ?d'"
    by (simp add: add_country_assessment_def Let_def dict_find_hashable[OF h])
  have "history_inv ?d' (seen @ [r])"
  proof (cases "dict_lookup d ?k")
    case None
    then have nk: "\<forall>e \<in> set d. \<not> py_eq (fst e) ?k" by (simp add: dict_lookup_None_iff)
    have d': "?d' = d @ [(?k, [history_of r])]" using None by (simp add: dict_store_new)
    have fresh: "\<not> py_eq ?k (?n r')" if r': "r' \<in> set seen" for r'
    proof
      assume e: "py_eq ?k (?n r')"
      from C r' obtain e' where e': "e' \<in> set d" "py_eq (fst e') (?n r')" by blast
      from A e' have he: "hashable (fst e')" by simp
      have hr': "hashable (?n r')" using py_eq_hashable[OF he e'(2)] .
      have "py_eq (?n r') ?k" using py_eq_sym_hashable[OF h e] .
      from py_eq_trans_hashable[OF he e'(2) this] have "py_eq (fst e') ?k" .
      with nk e'(1) show False by simp
    qed
    have A': "\<forall>e \<in> set ?d'. hashable (fst e) \<and>
          snd e = map history_of (filter (\<lambda>r. py_eq (fst e) (?n r)) (seen @ [r]))"
    proof
      fix e assume "e \<in> set ?d'"
      then consider "e \<in> set d" | "e = (?k, [history_of r])" unfolding d' by auto
      then show "hashable (fst e) \<and>
          snd e = map history_of (filter (\<lambda>r. py_eq (fst e) (?n r)) (seen @ [r]))"
      proof cases
        case 1
        with A nk show ?thesis by simp
      next
        case 2
        have "filter (\<lambda>r'. py_eq ?k (?n r')) seen = []"
          using fresh by (simp add: filter_empty_conv)
        with 2 h show ?thesis by (simp add: py_eq_refl_hashable)
      qed
    qed
    have B': "sorted_wrt (\<lambda>x y. \<not> py_eq x y) (map fst ?d')"
      unfolding d' using B nk by (simp add: sorted_wrt_append)
    have C': "\<forall>r' \<in> set (seen @ [r]). \<exists>e \<in> set ?d'. py_eq (fst e) (?n r')"
      unfolding d' using C h by (auto simp: py_eq_refl_hashable)
    from A' B' C' show ?thesis unfolding history_inv_def by blast
  next
    case (Some xs)
    from dict_lookup_Some_split[OF Some] obtain d1 k' d2 where
      s: "d = d1 @ (k', xs) # d2" "py_eq k' ?k" "\<forall>e \<in> set d1. \<not> py_eq (fst e) ?k"
         "\<forall>v. dict_store d ?k v = d1 @ (k', v) # d2"
      by blast
    have d': "?d' = d1 @ (k', xs @ [history_of r]) # d2" using Some s(4) by simp
    have hk': "hashable k'" using A s(1) by simp
    have xs: "xs = map history_of (filter (\<lambda>r. py_eq k' (?n r)) seen)" using A s(1) by simp
    have later: "\<not> py_eq (fst e) ?k" if e: "e \<in> set d2" for e
    proof
      assume eq: "py_eq (fst e) ?k"
      have he: "hashable (fst e)" using A s(1) e by simp
      have "py_eq ?k (fst e)" using py_eq_sym_hashable[OF he eq] .
      from py_eq_trans_hashable[OF hk' s(2) this] have "py_eq k' (fst e)" .
      moreover have "\<not> py_eq k' (fst e)"
        using B e unfolding s(1) by (simp add: sorted_wrt_append)
      ultimately show False by simp
    qed
    have A': "\<forall>e \<in> set ?d'. hashable (fst e) \<and>
          snd e = map history_of (filter (\<lambda>r. py_eq (fst e) (?n r)) (seen @ [r]))"
    proof
      fix e assume "e \<in> set ?d'"
      then consider "e \<in> set d1" | "e = (k', xs @ [history_of r])" | "e \<in> set d2"
        unfolding d' by auto
      then show "hashable (fst e) \<and>
          snd e = map history_of (filter (\<lambda>r. py_eq (fst e) (?n r)) (seen @ [r]))"
      proof cases
        case 1
        with A s(1,3) show ?thesis by simp
      next
        case 2
        with hk' xs s(2) show ?thesis by simp
      next
        case 3
        with A s(1) later show ?thesis by simp
      qed
    qed
    have B': "sorted_wrt (\<lambda>x y. \<not> py_eq x y) (map fst ?d')"
      using B unfolding d' by (simp add: s(1))
    have C': "\<forall>r' \<in> set (seen @ [r]). \<exists>e \<in> set ?d'. py_eq (fst e) (?n r')"
    proof
      fix r' assume "r' \<in> set (seen @ [r])"
      then consider "r' \<in> set seen" | "r' = r" by auto
      then show "\<exists>e \<in> set ?d'. py_eq (fst e) (?n r')"
      proof cases
        case 1
        with C obtain e where e: "e \<in> set d" "py_eq (fst e) (?n r')" by blast
        then have "fst e \<in> fst ` set d" by simp
        also have "fst ` set d = fst ` set ?d'" unfolding d' by (simp add: s(1) image_Un)
        finally obtain e' where e': "e' \<in> set ?d'" "fst e' = fst e" by auto
        from e(2) e'(2) have "py_eq (fst e') (?n r')" by simp
        with e'(1) show ?thesis by (rule rev_bexI)
      next
        case 2
        have m: "(k', xs @ [history_of r]) \<in> set ?d'" unfolding d' by simp
        from s(2) 2 have "py_eq (fst (k', xs @ [history_of r])) (?n r')" by simp
        with m show ?thesis by (rule rev_bexI)
      qed
    qed
    from A' B' C' show ?thesis unfolding history_inv_def by blast
  qed
  with run show ?thesis by blast
qed

lemma history_fold:
  assumes "\<forall>r \<in> set rs. hashable (jr_country_name r)" and "history_inv d seen"
  shows "\<exists>d'. fold_err add_country_assessment rs d = Inr d' \<and> history_inv d' (seen @ rs)"
  using assms
proof (induction rs arbitrary: d seen)
  case Nil
  then show ?case by simp
next
  case (Cons r rs)
  then have h: "hashable (jr_country_name r)" by simp
  from history_step[OF Cons.prems(2) h] obtain d1 where
    d1: "add_country_assessment d r = Inr d1" "history_inv d1 (seen @ [r])"
    by blast
  from Cons.IH[OF _ d1(2)] Cons.prems(1) obtain d' where
    "fold_err add_country_assessment rs d1 = Inr d'" "history_inv d' ((seen @ [r]) @ rs)"
    by auto
  with d1(1) show ?case by simp
qed

lemma date_key_is_str:
  assumes "is_str (jr_date_of_assessment r) \<or> \<not> truthy (jr_date_of_assessment r)"
  shows "is_str (date_key (history_of r))"
  using assms by (auto simp: date_key_def history_of_def is_str_def)

lemma sort_key_short: "length xs < 2 \<Longrightarrow> sort_key f xs = xs"
proof (cases xs)
  case Nil
  then show ?thesis by simp
next
  case (Cons x ys)
  assume "length xs < 2"
  with Cons have "ys = []" by simp
  with Cons show ?thesis by simp
qed

lemma sort_by_date_strings:
  assumes "\<forall>a \<in> set xs. is_str (date_key a)"
  shows "sort_by_date xs = Inr (sort_key str_key xs)"
  using assms by (simp add: sort_by_date_def sort_key_short list_all_iff)

lemma for_each_map:
  "\<forall>x \<in> set xs. f x = Inr (g x) \<Longrightarrow> for_each f xs = Inr (map g xs)"
  by (induction xs) simp_all

lemma example_history:
  "country_assessments example_joined_data =
     Inr [(JStr ''Kenya'',
           [history_of (example_joined (JInt 3) (JStr ''Kenya'') (JStr ''2019-06-30'')
              [example_component (JInt 5)]),
            history_of (example_joined (JInt 1) (JStr ''Kenya'') (JStr ''2021-03-01'') []),
            history_of (example_joined (JInt 4) (JStr ''Kenya'') (JStr ''2021-03-01'')
              [example_component JNull])]),
          (JStr ''Peru'',
           [history_of (example_joined (JInt 2) (JStr ''Peru'') JNull
              [example_component JNull, example_component (JInt 5)])])]"
  by (simp add: country_assessments_def example_joined_data_def add_country_assessment_def
      dict_find_def hashable_def example_joined_def sort_country_def sort_by_date_def
      date_key_def str_key_def is_str_def history_of_def Let_def)

text \<open>
  Claim C8. For every country key of the history, when the dates are strings or
  missing, the summaries are non-decreasing by date string, a missing or null date
  counting as the empty string (so first); summaries of equal date keep the order in
  which the joined records were met: the sequence is the stable sort of the summaries
  of the records of that country, in input order.
\<close>

theorem history_sorted_by_date:
  assumes "\<forall>r \<in> set joined. hashable (jr_country_name r)"
    and "\<forall>r \<in> set joined. is_str (jr_date_of_assessment r)
           \<or> \<not> truthy (jr_date_of_assessment r)"
  shows "\<exists>history. country_assessments joined = Inr history \<and>
     (\<forall>e \<in> set history.
        sorted (map str_key (snd e)) \<and>
        (\<forall>date. filter (\<lambda>a. str_key a = date) (snd e)
           = filter (\<lambda>a. str_key a = date)
               (map history_of (filter (\<lambda>r. py_eq (fst e) (jr_country_name r)) joined))) \<and>
        snd e = sort_key str_key
               (map history_of (filter (\<lambda>r. py_eq (fst e) (jr_country_name r)) joined)) \<and>
        (\<forall>a \<in> set (snd e). \<not> truthy (hs_date a) \<longrightarrow> str_key a = []))"
proof -
  have "history_inv [] []" by (simp add: history_inv_def)
  from history_fold[OF assms(1) this] obtain d where
    d: "fold_err add_country_assessment joined [] = Inr d" "history_inv d joined"
    by auto
  let ?sorted = "\<lambda>e :: json \<times> history_summary list. (fst e, sort_key str_key (snd e))"
  have entries: "snd e = map history_of (filter (\<lambda>r. py_eq (fst e) (jr_country_name r)) joined)"
    if "e \<in> set d" for e
    using d(2) that by (simp add: history_inv_def)
  have "sort_country e = Inr (?sorted e)" if e: "e \<in> set d" for e
  proof -
    have "\<forall>a \<in> set (snd e). is_str (date_key a)"
      unfolding entries[OF e] using assms(2) by (auto simp: date_key_is_str)
    then show ?thesis by (simp add: sort_country_def sort_by_date_strings)
  qed
  then have "for_each sort_country d = Inr (map ?sorted d)"
    by (intro for_each_map) simp
  with d(1) have run: "country_assessments joined = Inr (map ?sorted d)"
    by (simp add: country_assessments_def)
  have "sorted (map str_key (snd e')) \<and>
        (\<forall>date. filter (\<lambda>a. str_key a = date) (snd e')
           = filter (\<lambda>a. str_key a = date)
               (map history_of (filter (\<lambda>r. py_eq (fst e') (jr_country_name r)) joined))) \<and>
        snd e' = sort_key str_key
               (map history_of (filter (\<lambda>r. py_eq (fst e') (jr_country_name r)) joined)) \<and>
        (\<forall>a \<in> set (snd e'). \<not> truthy (hs_date a) \<longrightarrow> str_key a = [])"
    if "e' \<in> set (map ?sorted d)" for e'
  proof -
    from that obtain e where e: "e \<in> set d" "e' = ?sorted e" by auto
    have s: "snd e' = sort_key str_key
        (map history_of (filter (\<lambda>r. py_eq (fst e') (jr_country_name r)) joined))"
      using e entries[OF e(1)] by simp
    have "sorted (map str_key (snd e'))" unfolding s by (rule sorted_sort_key)
    moreover have "\<forall>date. filter (\<lambda>a. str_key a = date) (snd e')
           = filter (\<lambda>a. str_key a = date)
               (map history_of (filter (\<lambda>r. py_eq (fst e') (jr_country_name r)) joined))"
      unfolding s by (simp add: sort_key_stable)
    moreover have "\<forall>a \<in> set (snd e'). \<not> truthy (hs_date a) \<longrightarrow> str_key a = []"
      by (simp add: str_key_def date_key_def)
    ultimately show ?thesis using s by simp
  qed
  with run show ?thesis by blast
qed

theorem history_sorted_by_date_witness:
  "\<exists>history. country_assessments example_joined_data = Inr history \<and>
     map fst history = [JStr ''Kenya'', JStr ''Peru''] \<and>
     map (\<lambda>e. map str_key (snd e)) history
       = [[''2019-06-30'', ''2021-03-01'', ''2021-03-01''], [[]]] \<and>
     map (\<lambda>e. map (\<lambda>a. length (hs_components a)) (snd e)) history = [[1, 0, 1], [2]]"
proof -
  have n: "\<forall>r \<in> set example_joined_data. hashable (jr_country_name r)"
    by (simp add: example_joined_data_def example_joined_def hashable_def)
  have dts: "\<forall>r \<in> set example_joined_data. is_str (jr_date_of_assessment r)
           \<or> \<not> truthy (jr_date_of_assessment r)"
    by (simp add: example_joined_data_def example_joined_def is_str_def)
  from history_sorted_by_date[OF n dts] obtain history where
    h: "country_assessments example_joined_data = Inr history"
    by (elim exE conjE)
  from h example_history have
    "history = [(JStr ''Kenya'',
           [history_of (example_joined (JInt 3) (JStr ''Kenya'') (JStr ''2019-06-30'')
              [example_component (JInt 5)]),
            history_of (example_joined (JInt 1) (JStr ''Kenya'') (JStr ''2021-03-01'') []),
            history_of (example_joined (JInt 4) (JStr ''Kenya'') (JStr ''2021-03-01'')
              [example_component JNull])]),
          (JStr ''Peru'',
           [history_of (example_joined (JInt 2) (JStr ''Peru'') JNull
              [example_component JNull, example_component (JInt 5)])])]"
    by simp
  then have "map fst history = [JStr ''Kenya'', JStr ''Peru''] \<and>
     map (\<lambda>e. map str_key (snd e)) history
       = [[''2019-06-30'', ''2021-03-01'', ''2021-03-01''], [[]]] \<and>
     map (\<lambda>e. map (\<lambda>a. length (hs_components a)) (snd e)) history = [[1, 0, 1], [2]]"
    by (simp add: str_key_def date_key_def history_of_def example_joined_def)
  with h show ?thesis by (intro exI[of _ history]) simp
qed

end
